theory Spec2Isabelle
  imports Complex_Main
begin

section \<open>Values, models and the application state\<close>

text \<open>
  The graph builder \<open>buildFLUXGraph\<close> reads a snapshot of the application state, decides a
  generation mode, and wires a graph of nodes by calling the \<open>Graph\<close> class and a dozen
  feature sub-builders.  Only \<open>buildFLUXGraph\<close> itself is part of the sources at hand.  The
  sub-builders and selectors it imports are taken as parameters (the record \<open>env\<close> below); the
  \<open>Graph\<close> class and the id generator are modelled from the specification.
\<close>

datatype generation_mode = Txt2img | Img2img | Inpaint | Outpaint

record model_config =
  model_key :: string
  base :: string
  variant :: string

type_synonym model_identifier = string

text \<open>JavaScript numbers are idealised as real numbers.\<close>

datatype jvalue =
    JNumber real
  | JString string
  | JBoolean bool
  | JMainModel model_config
  | JModelIdentifier model_identifier

record dims =
  width :: real
  height :: real

record rect =
  rect_x :: real
  rect_y :: real
  rect_width :: real
  rect_height :: real

record bbox =
  rect :: rect
  scaledSize :: dims

datatype canvas_manager = CanvasManager nat

type_synonym entity = string

record params =
  guidance :: real
  seed :: real
  steps :: real
  fluxVAE :: "model_identifier option"
  t5EncoderModel :: "model_identifier option"
  clipEmbedModel :: "model_identifier option"
  img2imgStrength :: real
  optimizedDenoisingEnabled :: bool

record canvas_entities =
  entities :: "entity list"

record canvas_slice =
  bbox :: bbox
  controlLayers :: canvas_entities
  regionalGuidance :: canvas_entities

record system_slice =
  shouldUseNSFWChecker :: bool
  shouldUseWatermarker :: bool

text \<open>
  Modelled from the spec: the selectors (\<open>selectActiveTab\<close>, \<open>selectParamsSlice\<close>,
  \<open>selectCanvasSlice\<close>, \<open>selectRefImagesSlice\<close>, \<open>selectMainModelConfig\<close>,
  \<open>selectPresetModifiedPrompts\<close>, \<open>selectCanvasMetadata\<close>, \<open>selectCanvasOutputFields\<close>)
  are missing; the state snapshot is the record of what they select.
\<close>

record root_state =
  activeTab :: string
  paramsSlice :: params
  canvasSlice :: canvas_slice
  refImagesSlice :: canvas_entities
  mainModelConfig :: "model_config option"
  presetModifiedPositivePrompt :: string
  canvasMetadata :: "string \<rightharpoonup> jvalue"
  canvasOutputFields :: "string \<rightharpoonup> jvalue"
  system :: system_slice

datatype build_error =
    AssertionError string
  | UnsupportedGenerationModeError string

section \<open>The graph\<close>

text \<open>
  Node objects are shared between the builder, the sub-builders and the graph; a node is
  therefore referred to by its identifier, and the graph's node table is the store.
  An identifier is a prefix together with a unique suffix.
\<close>

type_synonym node_id = "string \<times> nat"

record node =
  ntype :: string
  nid :: node_id
  nfields :: "string \<rightharpoonup> jvalue"

record edge =
  source_node :: node_id
  source_field :: string
  destination_node :: node_id
  destination_field :: string

record graph =
  graph_id :: node_id
  nodes :: "node_id \<rightharpoonup> node"
  edges :: "edge list"
  metadata :: "string \<rightharpoonup> jvalue"
  metadata_receiver :: "node_id option"

text \<open>
  Modelled from the spec: \<open>getPrefixedId\<close> is missing.  Node identifiers are unique within
  a graph, so the generator hands out the prefix with the next unused suffix.
\<close>

definition getPrefixedId :: "string \<Rightarrow> nat \<Rightarrow> node_id \<times> nat" where
  "getPrefixedId prefix n = ((prefix, n), Suc n)"

text \<open>
  Modelled from the spec: the class \<open>Graph\<close> is missing.  A graph is a container of nodes
  and directed edges between named ports, with a metadata side record that is merged, never
  replaced, and one node designated as the metadata receiver.  Deleting a node also drops
  the edges that touch it, since edges reference only existing nodes.
\<close>

definition Graph_new :: "node_id \<Rightarrow> graph" where
  "Graph_new i = \<lparr>graph_id = i, nodes = Map.empty, edges = [], metadata = Map.empty,
     metadata_receiver = None\<rparr>"

definition addNode :: "node \<Rightarrow> graph \<Rightarrow> graph" where
  "addNode n gr = gr\<lparr>nodes := (nodes gr)(nid n \<mapsto> n)\<rparr>"

definition addEdge :: "node_id \<Rightarrow> string \<Rightarrow> node_id \<Rightarrow> string \<Rightarrow> graph \<Rightarrow> graph" where
  "addEdge a fa b fb gr =
     gr\<lparr>edges := edges gr @ [\<lparr>source_node = a, source_field = fa,
                               destination_node = b, destination_field = fb\<rparr>]\<rparr>"

definition deleteNode :: "node_id \<Rightarrow> graph \<Rightarrow> graph" where
  "deleteNode i gr =
     gr\<lparr>nodes := (nodes gr)(i := None),
        edges := filter (\<lambda>e. source_node e \<noteq> i \<and> destination_node e \<noteq> i) (edges gr)\<rparr>"

definition upsertMetadata :: "(string \<rightharpoonup> jvalue) \<Rightarrow> graph \<Rightarrow> graph" where
  "upsertMetadata md gr = gr\<lparr>metadata := metadata gr ++ md\<rparr>"

definition updateNode :: "node_id \<Rightarrow> (string \<rightharpoonup> jvalue) \<Rightarrow> graph \<Rightarrow> graph" where
  "updateNode i changes gr =
     (case nodes gr i of
        None \<Rightarrow> gr
      | Some n \<Rightarrow> gr\<lparr>nodes := (nodes gr)(i \<mapsto> n\<lparr>nfields := nfields n ++ changes\<rparr>)\<rparr>)"

definition setMetadataReceivingNode :: "node_id \<Rightarrow> graph \<Rightarrow> graph" where
  "setMetadataReceivingNode i gr = gr\<lparr>metadata_receiver := Some i\<rparr>"

text \<open>
  What a build threads through its steps: the graph under construction and the supply of
  identifier suffixes.
\<close>

record builder_state =
  graph :: graph
  id_supply :: nat

text \<open>The recurring step \<open>g.addNode({ type, id: getPrefixedId(prefix), ...fields })\<close>.\<close>

definition add_fresh_node ::
  "string \<Rightarrow> string \<Rightarrow> (string \<rightharpoonup> jvalue) \<Rightarrow> builder_state \<Rightarrow> node_id \<times> builder_state" where
  "add_fresh_node ty prefix fs s =
     (let (i, n') = getPrefixedId prefix (id_supply s)
      in (i, \<lparr>graph = addNode \<lparr>ntype = ty, nid = i, nfields = fs\<rparr> (graph s),
              id_supply = n'\<rparr>))"

definition on_graph :: "(graph \<Rightarrow> graph) \<Rightarrow> builder_state \<Rightarrow> builder_state" where
  "on_graph f s = s\<lparr>graph := f (graph s)\<rparr>"

section \<open>The collaborators of the builder\<close>

text \<open>The argument objects handed to the sub-builders, field by field.\<close>

record fill_args =
  ff_state :: root_state
  ff_manager :: canvas_manager
  ff_l2i :: node_id
  ff_denoise :: node_id
  ff_originalSize :: dims
  ff_scaledSize :: dims

record t2i_args =
  t2i_l2i :: node_id
  t2i_originalSize :: dims
  t2i_scaledSize :: dims

record i2i_args =
  i2i_manager :: canvas_manager
  i2i_l2i :: node_id
  i2i_i2lNodeType :: string
  i2i_denoise :: node_id
  i2i_vaeSource :: node_id
  i2i_originalSize :: dims
  i2i_scaledSize :: dims
  i2i_bbox :: bbox
  i2i_denoising_start :: real
  i2i_fp32 :: bool

record paint_args =
  pa_state :: root_state
  pa_manager :: canvas_manager
  pa_l2i :: node_id
  pa_i2lNodeType :: string
  pa_denoise :: node_id
  pa_vaeSource :: node_id
  pa_modelLoader :: node_id
  pa_originalSize :: dims
  pa_scaledSize :: dims
  pa_denoising_start :: real
  pa_fp32 :: bool
  pa_seed :: real

record control_net_args =
  cn_manager :: canvas_manager
  cn_entities :: "entity list"
  cn_rect :: rect
  cn_collector :: node_id
  cn_model :: model_config

record control_lora_args =
  cl_manager :: canvas_manager
  cl_entities :: "entity list"
  cl_rect :: rect
  cl_denoise :: node_id
  cl_model :: model_config

record ref_image_args =
  ri_entities :: "entity list"
  ri_collector :: node_id
  ri_model :: model_config

record regions_args =
  rg_manager :: canvas_manager
  rg_regions :: "entity list"
  rg_bbox :: rect
  rg_model :: model_config
  rg_posCond :: node_id
  rg_negCond :: "node_id option"
  rg_posCondCollect :: node_id
  rg_negCondCollect :: "node_id option"
  rg_ipAdapterCollect :: node_id
  rg_fluxReduxCollect :: node_id

record region_result =
  addedIPAdapters :: int
  addedFLUXReduxes :: int

text \<open>
  The imported functions whose code is not at hand.  A sub-builder mutates the graph it is
  given (and may draw fresh identifiers), so it is a transformer of the builder state; those
  that report something return it beside the new state.
\<close>

record env =
  i18n_t :: "string \<Rightarrow> string"
  getGenerationMode :: "canvas_manager option \<Rightarrow> string \<Rightarrow> generation_mode"
  getSizes :: "bbox \<Rightarrow> dims \<times> dims"
  getModelMetadataField :: "model_config \<Rightarrow> jvalue"
  addFLUXLoRAs :: "root_state \<Rightarrow> node_id \<Rightarrow> node_id \<Rightarrow> node_id \<Rightarrow> builder_state \<Rightarrow> builder_state"
  addFLUXFill :: "fill_args \<Rightarrow> builder_state \<Rightarrow> node_id \<times> builder_state"
  addTextToImage :: "t2i_args \<Rightarrow> builder_state \<Rightarrow> node_id \<times> builder_state"
  addImageToImage :: "i2i_args \<Rightarrow> builder_state \<Rightarrow> node_id \<times> builder_state"
  addInpaint :: "paint_args \<Rightarrow> builder_state \<Rightarrow> node_id \<times> builder_state"
  addOutpaint :: "paint_args \<Rightarrow> builder_state \<Rightarrow> node_id \<times> builder_state"
  addControlNets :: "control_net_args \<Rightarrow> builder_state \<Rightarrow> int \<times> builder_state"
  addControlLoRA :: "control_lora_args \<Rightarrow> builder_state \<Rightarrow> builder_state"
  addIPAdapters :: "ref_image_args \<Rightarrow> builder_state \<Rightarrow> int \<times> builder_state"
  addFLUXReduxes :: "ref_image_args \<Rightarrow> builder_state \<Rightarrow> int \<times> builder_state"
  addRegions :: "regions_args \<Rightarrow> builder_state \<Rightarrow> region_result list \<times> builder_state"
  addNSFWChecker :: "node_id \<Rightarrow> builder_state \<Rightarrow> node_id \<times> builder_state"
  addWatermarker :: "node_id \<Rightarrow> builder_state \<Rightarrow> node_id \<times> builder_state"

section \<open>buildFLUXGraph\<close>

subsection \<open>Lines 67 to 71: the required models\<close>

record required_models =
  rm_model :: model_config
  rm_t5EncoderModel :: model_identifier
  rm_clipEmbedModel :: model_identifier
  rm_fluxVAE :: model_identifier

definition check_models :: "root_state \<Rightarrow> build_error + required_models" where
  "check_models st =
     (case mainModelConfig st of
        None \<Rightarrow> Inl (AssertionError ''No model found in state'')
      | Some model \<Rightarrow>
          if base model \<noteq> ''flux'' then Inl (AssertionError ''Model is not a FLUX model'')
          else (case t5EncoderModel (paramsSlice st) of
            None \<Rightarrow> Inl (AssertionError ''No T5 Encoder model found in state'')
          | Some t5 \<Rightarrow>
              (case clipEmbedModel (paramsSlice st) of
                 None \<Rightarrow> Inl (AssertionError ''No CLIP Embed model found in state'')
               | Some clip \<Rightarrow>
                   (case fluxVAE (paramsSlice st) of
                      None \<Rightarrow> Inl (AssertionError ''No FLUX VAE model found in state'')
                    | Some vae \<Rightarrow>
                        Inr \<lparr>rm_model = model, rm_t5EncoderModel = t5,
                             rm_clipEmbedModel = clip, rm_fluxVAE = vae\<rparr>))))"

subsection \<open>Lines 73 to 96: FLUX Fill and the guidance\<close>

definition isFLUXFill :: "model_config \<Rightarrow> bool" where
  "isFLUXFill model \<longleftrightarrow> variant model = ''inpaint''"

definition resolve_guidance ::
  "env \<Rightarrow> model_config \<Rightarrow> generation_mode \<Rightarrow> real \<Rightarrow> build_error + real" where
  "resolve_guidance en model generationMode baseGuidance =
     (if isFLUXFill model then
        (if generationMode = Txt2img \<or> generationMode = Img2img
         then Inl (UnsupportedGenerationModeError
                     (i18n_t en ''toast.fluxFillIncompatibleWithT2IAndI2I''))
         else Inr 30)
      else Inr baseGuidance)"

subsection \<open>Lines 98 to 160: the base graph and the first metadata\<close>

record base_nodes =
  modelLoader :: node_id
  posCond :: node_id
  posCondCollect :: node_id
  denoise :: node_id
  l2i :: node_id

definition initial_metadata ::
  "env \<Rightarrow> root_state \<Rightarrow> required_models \<Rightarrow> real \<Rightarrow> dims \<Rightarrow> (string \<rightharpoonup> jvalue)" where
  "initial_metadata en st rm gd originalSize =
     map_of
      [(''guidance'', JNumber gd),
       (''width'', JNumber (width originalSize)),
       (''height'', JNumber (height originalSize)),
       (''positive_prompt'', JString (presetModifiedPositivePrompt st)),
       (''model'', getModelMetadataField en (rm_model rm)),
       (''seed'', JNumber (seed (paramsSlice st))),
       (''steps'', JNumber (steps (paramsSlice st))),
       (''vae'', JModelIdentifier (rm_fluxVAE rm)),
       (''t5_encoder'', JModelIdentifier (rm_t5EncoderModel rm)),
       (''clip_embed_model'', JModelIdentifier (rm_clipEmbedModel rm))]"

text \<open>Lines 100 to 145: the five base nodes and the nine edges between them.\<close>

definition wire_base ::
  "root_state \<Rightarrow> required_models \<Rightarrow> real \<Rightarrow> dims \<Rightarrow> base_nodes \<times> builder_state" where
  "wire_base st rm gd scaledSz =
     (let (gi, n0) = getPrefixedId ''flux_graph'' 0;
          s0 = \<lparr>graph = Graph_new gi, id_supply = n0\<rparr>;
          (ml, s1) = add_fresh_node ''flux_model_loader'' ''flux_model_loader''
                       (map_of [(''model'', JMainModel (rm_model rm)),
                                (''t5_encoder_model'', JModelIdentifier (rm_t5EncoderModel rm)),
                                (''clip_embed_model'', JModelIdentifier (rm_clipEmbedModel rm)),
                                (''vae_model'', JModelIdentifier (rm_fluxVAE rm))]) s0;
          (pc, s2) = add_fresh_node ''flux_text_encoder'' ''flux_text_encoder''
                       (map_of [(''prompt'', JString (presetModifiedPositivePrompt st))]) s1;
          (pcc, s3) = add_fresh_node ''collect'' ''pos_cond_collect'' Map.empty s2;
          (dn, s4) = add_fresh_node ''flux_denoise'' ''flux_denoise''
                       (map_of [(''guidance'', JNumber gd),
                                (''num_steps'', JNumber (steps (paramsSlice st))),
                                (''seed'', JNumber (seed (paramsSlice st))),
                                (''denoising_start'', JNumber 0),
                                (''denoising_end'', JNumber 1),
                                (''width'', JNumber (width scaledSz)),
                                (''height'', JNumber (height scaledSz))]) s3;
          (li, s5) = add_fresh_node ''flux_vae_decode'' ''flux_vae_decode'' Map.empty s4;
          s6 = on_graph (addEdge ml ''transformer'' dn ''transformer'') s5;
          s7 = on_graph (addEdge ml ''vae'' dn ''controlnet_vae'') s6;
          s8 = on_graph (addEdge ml ''vae'' li ''vae'') s7;
          s9 = on_graph (addEdge ml ''clip'' pc ''clip'') s8;
          s10 = on_graph (addEdge ml ''t5_encoder'' pc ''t5_encoder'') s9;
          s11 = on_graph (addEdge ml ''max_seq_len'' pc ''t5_max_seq_len'') s10;
          s12 = on_graph (addEdge pc ''conditioning'' pcc ''item'') s11;
          s13 = on_graph (addEdge pcc ''collection'' dn ''positive_text_conditioning'') s12;
          s14 = on_graph (addEdge dn ''latents'' li ''latents'') s13
      in (\<lparr>modelLoader = ml, posCond = pc, posCondCollect = pcc, denoise = dn, l2i = li\<rparr>,
          s14))"

text \<open>Lines 98 to 160: the base, the LoRAs, and the first metadata.\<close>

definition build_base ::
  "env \<Rightarrow> root_state \<Rightarrow> required_models \<Rightarrow> real \<Rightarrow> dims \<Rightarrow> dims
     \<Rightarrow> base_nodes \<times> builder_state" where
  "build_base en st rm gd originalSize scaledSz =
     (let (bn, s14) = wire_base st rm gd scaledSz;
          s15 = addFLUXLoRAs en st (denoise bn) (modelLoader bn) (posCond bn) s14;
          s16 = on_graph (upsertMetadata (initial_metadata en st rm gd originalSize)) s15
      in (bn, s16))"

subsection \<open>Lines 162 to 170: where denoising starts\<close>

definition denoising_start :: "params \<Rightarrow> real" where
  "denoising_start p =
     (if optimizedDenoisingEnabled p then 1 - img2imgStrength p powr 0.2
      else 1 - img2imgStrength p)"

subsection \<open>Lines 172 to 242: one sub-builder for the mode\<close>

definition generation_mode_metadata :: "string \<Rightarrow> (string \<rightharpoonup> jvalue)" where
  "generation_mode_metadata tag = map_of [(''generation_mode'', JString tag)]"

text \<open>The argument objects of lines 176 to 238.\<close>

definition fill_arguments ::
  "root_state \<Rightarrow> canvas_manager \<Rightarrow> base_nodes \<Rightarrow> dims \<Rightarrow> dims \<Rightarrow> fill_args" where
  "fill_arguments st m bn originalSize scaledSz =
     \<lparr>ff_state = st, ff_manager = m, ff_l2i = l2i bn, ff_denoise = denoise bn,
      ff_originalSize = originalSize, ff_scaledSize = scaledSz\<rparr>"

definition t2i_arguments :: "base_nodes \<Rightarrow> dims \<Rightarrow> dims \<Rightarrow> t2i_args" where
  "t2i_arguments bn originalSize scaledSz =
     \<lparr>t2i_l2i = l2i bn, t2i_originalSize = originalSize, t2i_scaledSize = scaledSz\<rparr>"

definition i2i_arguments ::
  "root_state \<Rightarrow> canvas_manager \<Rightarrow> base_nodes \<Rightarrow> dims \<Rightarrow> dims \<Rightarrow> real \<Rightarrow> i2i_args" where
  "i2i_arguments st m bn originalSize scaledSz ds =
     \<lparr>i2i_manager = m, i2i_l2i = l2i bn, i2i_i2lNodeType = ''flux_vae_encode'',
      i2i_denoise = denoise bn, i2i_vaeSource = modelLoader bn,
      i2i_originalSize = originalSize, i2i_scaledSize = scaledSz,
      i2i_bbox = bbox (canvasSlice st), i2i_denoising_start = ds, i2i_fp32 = False\<rparr>"

definition paint_arguments ::
  "root_state \<Rightarrow> canvas_manager \<Rightarrow> base_nodes \<Rightarrow> dims \<Rightarrow> dims \<Rightarrow> real \<Rightarrow> paint_args" where
  "paint_arguments st m bn originalSize scaledSz ds =
     \<lparr>pa_state = st, pa_manager = m, pa_l2i = l2i bn, pa_i2lNodeType = ''flux_vae_encode'',
      pa_denoise = denoise bn, pa_vaeSource = modelLoader bn, pa_modelLoader = modelLoader bn,
      pa_originalSize = originalSize, pa_scaledSize = scaledSz, pa_denoising_start = ds,
      pa_fp32 = False, pa_seed = seed (paramsSlice st)\<rparr>"

definition dispatch_mode ::
  "env \<Rightarrow> root_state \<Rightarrow> canvas_manager option \<Rightarrow> bool \<Rightarrow> generation_mode \<Rightarrow> base_nodes
     \<Rightarrow> dims \<Rightarrow> dims \<Rightarrow> real \<Rightarrow> builder_state \<Rightarrow> build_error + (node_id \<times> builder_state)" where
  "dispatch_mode en st manager fill generationMode bn originalSize scaledSz ds s =
     (if fill then
        (case manager of
           None \<Rightarrow> Inl (AssertionError ''Need manager to do FLUX Fill'')
         | Some m \<Rightarrow>
             Inr (addFLUXFill en (fill_arguments st m bn originalSize scaledSz) s))
      else (case generationMode of
        Txt2img \<Rightarrow>
          (let (out, s1) = addTextToImage en (t2i_arguments bn originalSize scaledSz) s
           in Inr (out, on_graph (upsertMetadata (generation_mode_metadata ''flux_txt2img'')) s1))
      | Img2img \<Rightarrow>
          (case manager of
             None \<Rightarrow> Inl (AssertionError ''Need manager to do img2img'')
           | Some m \<Rightarrow>
               (let (out, s1) = addImageToImage en
                      (i2i_arguments st m bn originalSize scaledSz ds) s
                in Inr (out,
                     on_graph (upsertMetadata (generation_mode_metadata ''flux_img2img'')) s1)))
      | Inpaint \<Rightarrow>
          (case manager of
             None \<Rightarrow> Inl (AssertionError ''Need manager to do inpaint'')
           | Some m \<Rightarrow>
               (let (out, s1) = addInpaint en (paint_arguments st m bn originalSize scaledSz ds) s
                in Inr (out,
                     on_graph (upsertMetadata (generation_mode_metadata ''flux_inpaint'')) s1)))
      | Outpaint \<Rightarrow>
          (case manager of
             None \<Rightarrow> Inl (AssertionError ''Need manager to do outpaint'')
           | Some m \<Rightarrow>
               (let (out, s1) = addOutpaint en (paint_arguments st m bn originalSize scaledSz ds) s
                in Inr (out,
                     on_graph (upsertMetadata (generation_mode_metadata ''flux_outpaint'')) s1)))))"

subsection \<open>Lines 244 to 327: the optional features and their collectors\<close>

text \<open>
  The step that follows each feature, written three times in the source:
  \<open>if (added > 0) { g.addEdge(collector, 'collection', denoise, field) }
   else { g.deleteNode(collector.id) }\<close>.
\<close>

definition connect_or_delete ::
  "int \<Rightarrow> node_id \<Rightarrow> node_id \<Rightarrow> string \<Rightarrow> builder_state \<Rightarrow> builder_state" where
  "connect_or_delete added collector dn field s =
     (if added > 0 then on_graph (addEdge collector ''collection'' dn field) s
      else on_graph (deleteNode collector) s)"

text \<open>Lines 245 to 256: the collector of the control nets and the number wired in.\<close>

definition collect_control_nets ::
  "env \<Rightarrow> root_state \<Rightarrow> canvas_manager \<Rightarrow> model_config \<Rightarrow> builder_state
     \<Rightarrow> node_id \<times> int \<times> builder_state" where
  "collect_control_nets en st m model s =
     (let (c, s1) = add_fresh_node ''collect'' ''control_net_collector'' Map.empty s;
          (added, s2) = addControlNets en
             \<lparr>cn_manager = m, cn_entities = entities (controlLayers (canvasSlice st)),
              cn_rect = rect (bbox (canvasSlice st)), cn_collector = c, cn_model = model\<rparr> s1
      in (c, added, s2))"

text \<open>Lines 244 to 271.\<close>

definition add_control_adapters ::
  "env \<Rightarrow> root_state \<Rightarrow> canvas_manager option \<Rightarrow> model_config \<Rightarrow> base_nodes
     \<Rightarrow> builder_state \<Rightarrow> builder_state" where
  "add_control_adapters en st manager model bn s =
     (case manager of
        None \<Rightarrow> s
      | Some m \<Rightarrow>
          (let (c, added, s2) = collect_control_nets en st m model s;
               s3 = connect_or_delete added c (denoise bn) ''control'' s2
           in addControlLoRA en
                \<lparr>cl_manager = m, cl_entities = entities (controlLayers (canvasSlice st)),
                 cl_rect = rect (bbox (canvasSlice st)), cl_denoise = denoise bn,
                 cl_model = model\<rparr> s3))"

text \<open>
  Lines 273 to 315: the two collectors of the reference images (both are given the prefix
  \<open>ip_adapter_collector\<close>) and the totals wired in, the regions included.
\<close>

definition collect_adapters ::
  "env \<Rightarrow> root_state \<Rightarrow> canvas_manager option \<Rightarrow> model_config \<Rightarrow> base_nodes
     \<Rightarrow> builder_state \<Rightarrow> node_id \<times> node_id \<times> int \<times> int \<times> builder_state" where
  "collect_adapters en st manager model bn s =
     (let (ipc, s1) = add_fresh_node ''collect'' ''ip_adapter_collector'' Map.empty s;
          (ipAdded, s2) = addIPAdapters en
             \<lparr>ri_entities = entities (refImagesSlice st), ri_collector = ipc,
              ri_model = model\<rparr> s1;
          (rdc, s3) = add_fresh_node ''collect'' ''ip_adapter_collector'' Map.empty s2;
          (rdAdded, s4) = addFLUXReduxes en
             \<lparr>ri_entities = entities (refImagesSlice st), ri_collector = rdc,
              ri_model = model\<rparr> s3
      in (case manager of
            None \<Rightarrow> (ipc, rdc, ipAdded, rdAdded, s4)
          | Some m \<Rightarrow>
              (let (regionsResult, s5) = addRegions en
                     \<lparr>rg_manager = m, rg_regions = entities (regionalGuidance (canvasSlice st)),
                      rg_bbox = rect (bbox (canvasSlice st)), rg_model = model,
                      rg_posCond = posCond bn, rg_negCond = None,
                      rg_posCondCollect = posCondCollect bn, rg_negCondCollect = None,
                      rg_ipAdapterCollect = ipc, rg_fluxReduxCollect = rdc\<rparr> s4
               in (ipc, rdc,
                   ipAdded + foldl (\<lambda>acc r. acc + addedIPAdapters r) 0 regionsResult,
                   rdAdded + foldl (\<lambda>acc r. acc + addedFLUXReduxes r) 0 regionsResult,
                   s5))))"

text \<open>Lines 273 to 327.\<close>

definition add_adapters ::
  "env \<Rightarrow> root_state \<Rightarrow> canvas_manager option \<Rightarrow> model_config \<Rightarrow> base_nodes
     \<Rightarrow> builder_state \<Rightarrow> builder_state" where
  "add_adapters en st manager model bn s =
     (let (ipc, rdc, totalIPAdaptersAdded, totalReduxesAdded, s5) =
            collect_adapters en st manager model bn s;
          s6 = connect_or_delete totalIPAdaptersAdded ipc (denoise bn) ''ip_adapter'' s5
      in connect_or_delete totalReduxesAdded rdc (denoise bn) ''redux_conditioning'' s6)"

subsection \<open>Lines 331 to 337: the safety filter, then the watermark\<close>

definition post_process ::
  "env \<Rightarrow> root_state \<Rightarrow> node_id \<Rightarrow> builder_state \<Rightarrow> node_id \<times> builder_state" where
  "post_process en st canvasOutput s =
     (let (o1, s1) = (if shouldUseNSFWChecker (system st)
                      then addNSFWChecker en canvasOutput s else (canvasOutput, s))
      in (if shouldUseWatermarker (system st) then addWatermarker en o1 s1 else (o1, s1)))"

subsection \<open>Lines 339 to 348: the last metadata, the output fields, the receiver\<close>

record field_identifier =
  nodeId :: node_id
  fieldName :: string

record graph_builder_return =
  ret_g :: graph
  seedFieldIdentifier :: field_identifier
  positivePromptFieldIdentifier :: field_identifier

definition finalize ::
  "root_state \<Rightarrow> base_nodes \<Rightarrow> node_id \<Rightarrow> builder_state \<Rightarrow> graph_builder_return" where
  "finalize st bn canvasOutput s =
     (let s1 = on_graph (upsertMetadata (canvasMetadata st)) s;
          s2 = on_graph (updateNode canvasOutput (canvasOutputFields st)) s1;
          s3 = on_graph (setMetadataReceivingNode canvasOutput) s2
      in \<lparr>ret_g = graph s3,
          seedFieldIdentifier = \<lparr>nodeId = denoise bn, fieldName = ''seed''\<rparr>,
          positivePromptFieldIdentifier = \<lparr>nodeId = posCond bn, fieldName = ''prompt''\<rparr>\<rparr>)"

subsection \<open>The whole function\<close>

text \<open>
  What is known once the mode-specific sub-builder has run (line 242): the models, the base
  nodes, the output node of the mode, and the state of the build.
\<close>

record build_context =
  ctx_models :: required_models
  ctx_nodes :: base_nodes
  ctx_canvasOutput :: node_id
  ctx_state :: builder_state

text \<open>Lines 41 to 242.  A failed assertion or a rejected mode ends the build with the error.\<close>

definition build_until_dispatch ::
  "env \<Rightarrow> root_state \<Rightarrow> canvas_manager option \<Rightarrow> build_error + build_context" where
  "build_until_dispatch en st manager =
     (let generationMode = getGenerationMode en manager (activeTab st);
          (originalSize, scaledSz) = getSizes en (bbox (canvasSlice st))
      in (case check_models st of
            Inl e \<Rightarrow> Inl e
          | Inr rm \<Rightarrow>
             (case resolve_guidance en (rm_model rm) generationMode (guidance (paramsSlice st)) of
                Inl e \<Rightarrow> Inl e
              | Inr gd \<Rightarrow>
                 (let (bn, s) = build_base en st rm gd originalSize scaledSz;
                      ds = denoising_start (paramsSlice st)
                  in (case dispatch_mode en st manager (isFLUXFill (rm_model rm)) generationMode
                             bn originalSize scaledSz ds s of
                        Inl e \<Rightarrow> Inl e
                      | Inr (out, s') \<Rightarrow>
                          Inr \<lparr>ctx_models = rm, ctx_nodes = bn, ctx_canvasOutput = out,
                               ctx_state = s'\<rparr>)))))"

text \<open>Lines 244 to 327: the state of the build once every optional feature is wired.\<close>

definition add_features ::
  "env \<Rightarrow> root_state \<Rightarrow> canvas_manager option \<Rightarrow> build_context \<Rightarrow> builder_state" where
  "add_features en st manager ctx =
     add_adapters en st manager (rm_model (ctx_models ctx)) (ctx_nodes ctx)
       (add_control_adapters en st manager (rm_model (ctx_models ctx)) (ctx_nodes ctx)
          (ctx_state ctx))"

text \<open>Lines 244 to 348.\<close>

definition finish_graph ::
  "env \<Rightarrow> root_state \<Rightarrow> canvas_manager option \<Rightarrow> build_context \<Rightarrow> graph_builder_return" where
  "finish_graph en st manager ctx =
     (let s2 = add_features en st manager ctx;
          (out, s3) = post_process en st (ctx_canvasOutput ctx) s2
      in finalize st (ctx_nodes ctx) out s3)"

definition buildFLUXGraph ::
  "env \<Rightarrow> root_state \<Rightarrow> canvas_manager option \<Rightarrow> build_error + graph_builder_return" where
  "buildFLUXGraph en st manager =
     (case build_until_dispatch en st manager of
        Inl e \<Rightarrow> Inl e
      | Inr ctx \<Rightarrow> Inr (finish_graph en st manager ctx))"

section \<open>Vocabulary of the statements\<close>

text \<open>The messages of the five assertions of lines 67 to 71.\<close>

definition precondition_messages :: "string set" where
  "precondition_messages =
     {''No model found in state'', ''Model is not a FLUX model'',
      ''No T5 Encoder model found in state'', ''No CLIP Embed model found in state'',
      ''No FLUX VAE model found in state''}"

text \<open>The state in which none of these assertions fires.\<close>

definition models_present :: "root_state \<Rightarrow> bool" where
  "models_present st \<longleftrightarrow>
     (case mainModelConfig st of None \<Rightarrow> False | Some m \<Rightarrow> base m = ''flux'')
     \<and> t5EncoderModel (paramsSlice st) \<noteq> None
     \<and> clipEmbedModel (paramsSlice st) \<noteq> None
     \<and> fluxVAE (paramsSlice st) \<noteq> None"

text \<open>
  What is assumed of the sub-builders, whose code is not at hand, is said as a relation
  between the state a sub-builder is given and the state it leaves: \<open>env_steps en R\<close> holds
  when every call of every sub-builder of \<open>en\<close>, on any arguments, is a step of \<open>R\<close>.
\<close>

definition env_steps :: "env \<Rightarrow> (builder_state \<Rightarrow> builder_state \<Rightarrow> bool) \<Rightarrow> bool" where
  "env_steps en R \<longleftrightarrow>
     (\<forall>st a b c s. R s (addFLUXLoRAs en st a b c s))
   \<and> (\<forall>a s. R s (snd (addFLUXFill en a s)))
   \<and> (\<forall>a s. R s (snd (addTextToImage en a s)))
   \<and> (\<forall>a s. R s (snd (addImageToImage en a s)))
   \<and> (\<forall>a s. R s (snd (addInpaint en a s)))
   \<and> (\<forall>a s. R s (snd (addOutpaint en a s)))
   \<and> (\<forall>a s. R s (snd (addControlNets en a s)))
   \<and> (\<forall>a s. R s (addControlLoRA en a s))
   \<and> (\<forall>a s. R s (snd (addIPAdapters en a s)))
   \<and> (\<forall>a s. R s (snd (addFLUXReduxes en a s)))
   \<and> (\<forall>a s. R s (snd (addRegions en a s)))
   \<and> (\<forall>a s. R s (snd (addNSFWChecker en a s)))
   \<and> (\<forall>a s. R s (snd (addWatermarker en a s)))"

text \<open>The value of a field of a node of the graph, if the node is there and has the field.\<close>

definition node_field :: "graph \<Rightarrow> node_id \<Rightarrow> string \<Rightarrow> jvalue option" where
  "node_field gr i k = (case nodes gr i of None \<Rightarrow> None | Some n \<Rightarrow> nfields n k)"

text \<open>The edge that lines 258, 318 and 324 add for a collector.\<close>

definition collector_edge :: "node_id \<Rightarrow> node_id \<Rightarrow> string \<Rightarrow> edge" where
  "collector_edge c dn field =
     \<lparr>source_node = c, source_field = ''collection'',
      destination_node = dn, destination_field = field\<rparr>"

text \<open>What the branch taken in lines 174 to 242 itself merges into the metadata.\<close>

definition mode_metadata :: "bool \<Rightarrow> generation_mode \<Rightarrow> (string \<rightharpoonup> jvalue)" where
  "mode_metadata fill generationMode =
     (if fill then Map.empty
      else (case generationMode of
              Txt2img \<Rightarrow> generation_mode_metadata ''flux_txt2img''
            | Img2img \<Rightarrow> generation_mode_metadata ''flux_img2img''
            | Inpaint \<Rightarrow> generation_mode_metadata ''flux_inpaint''
            | Outpaint \<Rightarrow> generation_mode_metadata ''flux_outpaint''))"

text \<open>The same for the two post-processing sub-builders alone.\<close>

definition post_steps :: "env \<Rightarrow> (builder_state \<Rightarrow> builder_state \<Rightarrow> bool) \<Rightarrow> bool" where
  "post_steps en R \<longleftrightarrow>
     (\<forall>a s. R s (snd (addNSFWChecker en a s)))
   \<and> (\<forall>a s. R s (snd (addWatermarker en a s)))"

text \<open>
  The same for the sub-builders that are called after the collector of the control nets
  has been connected or deleted (line 261).
\<close>

definition after_control_steps ::
  "env \<Rightarrow> (builder_state \<Rightarrow> builder_state \<Rightarrow> bool) \<Rightarrow> bool" where
  "after_control_steps en R \<longleftrightarrow>
     (\<forall>a s. R s (addControlLoRA en a s))
   \<and> (\<forall>a s. R s (snd (addIPAdapters en a s)))
   \<and> (\<forall>a s. R s (snd (addFLUXReduxes en a s)))
   \<and> (\<forall>a s. R s (snd (addRegions en a s)))
   \<and> (\<forall>a s. R s (snd (addNSFWChecker en a s)))
   \<and> (\<forall>a s. R s (snd (addWatermarker en a s)))"

text \<open>Steps that remove no metadata key; steps that leave the metadata at a key alone.\<close>

definition keeps_metadata_keys :: "builder_state \<Rightarrow> builder_state \<Rightarrow> bool" where
  "keeps_metadata_keys s s' \<longleftrightarrow> dom (metadata (graph s)) \<subseteq> dom (metadata (graph s'))"

definition same_metadata_at :: "string \<Rightarrow> builder_state \<Rightarrow> builder_state \<Rightarrow> bool" where
  "same_metadata_at k s s' \<longleftrightarrow> metadata (graph s') k = metadata (graph s) k"

text \<open>Steps that keep a node as it is; steps that keep the value of one of its fields.\<close>

definition keeps_node :: "node_id \<Rightarrow> builder_state \<Rightarrow> builder_state \<Rightarrow> bool" where
  "keeps_node i s s' \<longleftrightarrow> (\<forall>n. nodes (graph s) i = Some n \<longrightarrow> nodes (graph s') i = Some n)"

definition keeps_field :: "node_id \<Rightarrow> string \<Rightarrow> builder_state \<Rightarrow> builder_state \<Rightarrow> bool" where
  "keeps_field i k s s' \<longleftrightarrow>
     (\<forall>v. node_field (graph s) i k = Some v \<longrightarrow> node_field (graph s') i k = Some v)"

text \<open>Steps that put no node under a given identifier.\<close>

definition keeps_absent :: "node_id \<Rightarrow> builder_state \<Rightarrow> builder_state \<Rightarrow> bool" where
  "keeps_absent i s s' \<longleftrightarrow>
     (i \<notin> dom (nodes (graph s)) \<longrightarrow> i \<notin> dom (nodes (graph s')))"

text \<open>Steps that do not remove a given edge.\<close>

definition keeps_edge :: "edge \<Rightarrow> builder_state \<Rightarrow> builder_state \<Rightarrow> bool" where
  "keeps_edge e s s' \<longleftrightarrow> (e \<in> set (edges (graph s)) \<longrightarrow> e \<in> set (edges (graph s')))"

text \<open>
  The guidance that lines 74 to 96 settle on, and the three records that the calls of
  \<open>upsertMetadata\<close> in \<open>buildFLUXGraph\<close> itself merge, in the order of the calls
  (lines 149, 187 to 239, and 339).
\<close>

definition settled_guidance :: "root_state \<Rightarrow> required_models \<Rightarrow> real" where
  "settled_guidance st rm =
     (if isFLUXFill (rm_model rm) then 30 else guidance (paramsSlice st))"

definition builder_metadata ::
  "env \<Rightarrow> root_state \<Rightarrow> canvas_manager option \<Rightarrow> required_models
     \<Rightarrow> (string \<rightharpoonup> jvalue) list" where
  "builder_metadata en st manager rm =
     [initial_metadata en st rm (settled_guidance st rm)
        (fst (getSizes en (bbox (canvasSlice st)))),
      mode_metadata (isFLUXFill (rm_model rm)) (getGenerationMode en manager (activeTab st)),
      canvasMetadata st]"

section \<open>A sample environment and state\<close>

text \<open>
  Sub-builders simple enough to run a build by hand.  The safety filter and the watermark
  each add a node fed by the current output and return it, so each rewrites which node is
  the output; the image modes write the start of the denoising into the denoise node; the
  adapters report one item per entity.
\<close>

definition sample_nsfw :: "node_id \<Rightarrow> builder_state \<Rightarrow> node_id \<times> builder_state" where
  "sample_nsfw out s =
     (let (n, s1) = add_fresh_node ''img_nsfw'' ''nsfw_checker'' Map.empty s
      in (n, on_graph (addEdge out ''image'' n ''image'') s1))"

definition sample_watermark :: "node_id \<Rightarrow> builder_state \<Rightarrow> node_id \<times> builder_state" where
  "sample_watermark out s =
     (let (n, s1) = add_fresh_node ''img_watermark'' ''watermarker'' Map.empty s
      in (n, on_graph (addEdge out ''image'' n ''image'') s1))"

definition sample_env :: "generation_mode \<Rightarrow> env" where
  "sample_env mode =
     \<lparr>i18n_t = (\<lambda>k. k),
      getGenerationMode = (\<lambda>manager tab. mode),
      getSizes = (\<lambda>b. (\<lparr>width = rect_width (rect b), height = rect_height (rect b)\<rparr>,
                        scaledSize b)),
      getModelMetadataField = JMainModel,
      addFLUXLoRAs = (\<lambda>st dn ml pc s. s),
      addFLUXFill = (\<lambda>a s. (ff_l2i a, s)),
      addTextToImage = (\<lambda>a s. (t2i_l2i a, s)),
      addImageToImage = (\<lambda>a s. (i2i_l2i a,
         on_graph (updateNode (i2i_denoise a)
           (map_of [(''denoising_start'', JNumber (i2i_denoising_start a))])) s)),
      addInpaint = (\<lambda>a s. (pa_l2i a,
         on_graph (updateNode (pa_denoise a)
           (map_of [(''denoising_start'', JNumber (pa_denoising_start a))])) s)),
      addOutpaint = (\<lambda>a s. (pa_l2i a,
         on_graph (updateNode (pa_denoise a)
           (map_of [(''denoising_start'', JNumber (pa_denoising_start a))])) s)),
      addControlNets = (\<lambda>a s. (int (length (cn_entities a)), s)),
      addControlLoRA = (\<lambda>a s. s),
      addIPAdapters = (\<lambda>a s. (int (length (ri_entities a)), s)),
      addFLUXReduxes = (\<lambda>a s. (0, s)),
      addRegions = (\<lambda>a s. ([], s)),
      addNSFWChecker = sample_nsfw,
      addWatermarker = sample_watermark\<rparr>"

definition sample_model :: "string \<Rightarrow> model_config" where
  "sample_model v = \<lparr>model_key = ''flux-model'', base = ''flux'', variant = v\<rparr>"

definition sample_params :: params where
  "sample_params =
     \<lparr>guidance = 4, seed = 42, steps = 30, fluxVAE = Some ''flux-vae'',
      t5EncoderModel = Some ''t5'', clipEmbedModel = Some ''clip'',
      img2imgStrength = 0.5, optimizedDenoisingEnabled = True\<rparr>"

definition sample_state :: "string \<Rightarrow> root_state" where
  "sample_state v =
     \<lparr>activeTab = ''canvas'',
      paramsSlice = sample_params,
      canvasSlice = \<lparr>bbox = \<lparr>rect = \<lparr>rect_x = 0, rect_y = 0, rect_width = 1024,
                                       rect_height = 768\<rparr>,
                              scaledSize = \<lparr>width = 1024, height = 768\<rparr>\<rparr>,
                     controlLayers = \<lparr>entities = []\<rparr>,
                     regionalGuidance = \<lparr>entities = []\<rparr>\<rparr>,
      refImagesSlice = \<lparr>entities = [''ref'']\<rparr>,
      mainModelConfig = Some (sample_model v),
      presetModifiedPositivePrompt = ''a cat'',
      canvasMetadata = map_of [(''canvas_v2_metadata'', JString ''layers'')],
      canvasOutputFields = map_of [(''is_intermediate'', JBoolean False)],
      system = \<lparr>shouldUseNSFWChecker = False, shouldUseWatermarker = False\<rparr>\<rparr>"

section \<open>Unfolding and evaluation\<close>

lemmas sample_defs = sample_env_def sample_state_def sample_model_def sample_params_def
  sample_nsfw_def sample_watermark_def

lemmas build_defs = buildFLUXGraph_def build_until_dispatch_def check_models_def
  resolve_guidance_def isFLUXFill_def build_base_def wire_base_def dispatch_mode_def denoising_start_def
  finish_graph_def add_features_def add_adapters_def collect_adapters_def
  add_control_adapters_def collect_control_nets_def connect_or_delete_def post_process_def
  finalize_def add_fresh_node_def getPrefixedId_def on_graph_def paint_arguments_def
  fill_arguments_def t2i_arguments_def i2i_arguments_def
  initial_metadata_def generation_mode_metadata_def

lemmas graph_defs = Graph_new_def addNode_def addEdge_def deleteNode_def upsertMetadata_def
  updateNode_def setMetadataReceivingNode_def

section \<open>The checks that come first\<close>

lemma check_models_present:
  "models_present st \<Longrightarrow>
     \<exists>rm. check_models st = Inr rm \<and> mainModelConfig st = Some (rm_model rm)"
  by (auto simp: models_present_def check_models_def split: option.splits)

lemma check_models_Inr:
  "check_models st = Inr rm \<Longrightarrow> models_present st \<and> mainModelConfig st = Some (rm_model rm)"
  by (auto simp: models_present_def check_models_def split: option.splits if_splits)

lemma check_models_Inl:
  "check_models st = Inl e \<Longrightarrow>
     \<not> models_present st \<and> (\<exists>msg\<in>precondition_messages. e = AssertionError msg)"
  by (auto simp: models_present_def check_models_def precondition_messages_def
      split: option.splits if_splits)

lemma build_check_fails:
  "check_models st = Inl e \<Longrightarrow> buildFLUXGraph en st manager = Inl e"
  by (simp add: buildFLUXGraph_def build_until_dispatch_def Let_def split: prod.splits)

lemma build_guidance_fails:
  "check_models st = Inr rm \<Longrightarrow>
   resolve_guidance en (rm_model rm) (getGenerationMode en manager (activeTab st))
     (guidance (paramsSlice st)) = Inl e \<Longrightarrow>
   buildFLUXGraph en st manager = Inl e"
  by (simp add: buildFLUXGraph_def build_until_dispatch_def Let_def split: prod.splits)

lemma build_after_checks:
  assumes "check_models st = Inr rm"
    and "resolve_guidance en (rm_model rm) (getGenerationMode en manager (activeTab st))
           (guidance (paramsSlice st)) = Inr gd"
  shows "build_until_dispatch en st manager =
     (case dispatch_mode en st manager (isFLUXFill (rm_model rm))
             (getGenerationMode en manager (activeTab st))
             (fst (build_base en st rm gd (fst (getSizes en (bbox (canvasSlice st))))
                    (snd (getSizes en (bbox (canvasSlice st))))))
             (fst (getSizes en (bbox (canvasSlice st))))
             (snd (getSizes en (bbox (canvasSlice st))))
             (denoising_start (paramsSlice st))
             (snd (build_base en st rm gd (fst (getSizes en (bbox (canvasSlice st))))
                    (snd (getSizes en (bbox (canvasSlice st)))))) of
        Inl e \<Rightarrow> Inl e
      | Inr r \<Rightarrow> Inr \<lparr>ctx_models = rm,
           ctx_nodes = fst (build_base en st rm gd (fst (getSizes en (bbox (canvasSlice st))))
                    (snd (getSizes en (bbox (canvasSlice st))))),
           ctx_canvasOutput = fst r, ctx_state = snd r\<rparr>)"
  using assms
  by (simp add: build_until_dispatch_def Let_def case_prod_unfold split: sum.splits)

lemma build_of_dispatch:
  "buildFLUXGraph en st manager =
     (case build_until_dispatch en st manager of
        Inl e \<Rightarrow> Inl e | Inr ctx \<Rightarrow> Inr (finish_graph en st manager ctx))"
  by (simp add: buildFLUXGraph_def)

lemma dispatch_without_manager:
  "dispatch_mode en st None fill mode bn osz ssz ds s =
     (if fill then Inl (AssertionError ''Need manager to do FLUX Fill'')
      else (case mode of
              Txt2img \<Rightarrow> Inr (fst (addTextToImage en (t2i_arguments bn osz ssz) s),
                    on_graph (upsertMetadata (generation_mode_metadata ''flux_txt2img''))
                      (snd (addTextToImage en (t2i_arguments bn osz ssz) s)))
            | Img2img \<Rightarrow> Inl (AssertionError ''Need manager to do img2img'')
            | Inpaint \<Rightarrow> Inl (AssertionError ''Need manager to do inpaint'')
            | Outpaint \<Rightarrow> Inl (AssertionError ''Need manager to do outpaint'')))"
  by (cases mode) (simp_all add: dispatch_mode_def case_prod_unfold Let_def)

lemma dispatch_with_manager:
  "dispatch_mode en st (Some m) fill mode bn osz ssz ds s =
     Inr (if fill then addFLUXFill en (fill_arguments st m bn osz ssz) s
          else (case mode of
              Txt2img \<Rightarrow> (fst (addTextToImage en (t2i_arguments bn osz ssz) s),
                    on_graph (upsertMetadata (generation_mode_metadata ''flux_txt2img''))
                      (snd (addTextToImage en (t2i_arguments bn osz ssz) s)))
            | Img2img \<Rightarrow> (fst (addImageToImage en (i2i_arguments st m bn osz ssz ds) s),
                    on_graph (upsertMetadata (generation_mode_metadata ''flux_img2img''))
                      (snd (addImageToImage en (i2i_arguments st m bn osz ssz ds) s)))
            | Inpaint \<Rightarrow> (fst (addInpaint en (paint_arguments st m bn osz ssz ds) s),
                    on_graph (upsertMetadata (generation_mode_metadata ''flux_inpaint''))
                      (snd (addInpaint en (paint_arguments st m bn osz ssz ds) s)))
            | Outpaint \<Rightarrow> (fst (addOutpaint en (paint_arguments st m bn osz ssz ds) s),
                    on_graph (upsertMetadata (generation_mode_metadata ''flux_outpaint''))
                      (snd (addOutpaint en (paint_arguments st m bn osz ssz ds) s)))))"
  by (cases mode) (simp_all add: dispatch_mode_def case_prod_unfold Let_def)

lemma resolve_guidance_cases:
  "resolve_guidance en model mode g =
     (if isFLUXFill model \<and> (mode = Txt2img \<or> mode = Img2img)
      then Inl (UnsupportedGenerationModeError (i18n_t en ''toast.fluxFillIncompatibleWithT2IAndI2I''))
      else Inr (if isFLUXFill model then 30 else g))"
  by (simp add: resolve_guidance_def)


section \<open>Claim C5: the required models\<close>

text \<open>
  Claim C5.  \<open>buildFLUXGraph\<close> fails at once with a descriptive assertion error when a
  required model is missing: no main model, no T5 encoder, no CLIP embed model or no FLUX
  VAE, each with its own message, the first failing assertion deciding.  Conversely,
  when all four are there and the base of the main model is \<open>flux\<close>, the checks pass and
  whatever the build then does, it does not end in one of these assertion errors.
\<close>

theorem required_models_checked:
  "(mainModelConfig st = None \<longrightarrow>
      buildFLUXGraph en st manager = Inl (AssertionError ''No model found in state''))
 \<and> ((\<exists>m. mainModelConfig st = Some m \<and> base m = ''flux'')
      \<and> t5EncoderModel (paramsSlice st) = None \<longrightarrow>
      buildFLUXGraph en st manager = Inl (AssertionError ''No T5 Encoder model found in state''))
 \<and> ((\<exists>m. mainModelConfig st = Some m \<and> base m = ''flux'')
      \<and> t5EncoderModel (paramsSlice st) \<noteq> None \<and> clipEmbedModel (paramsSlice st) = None \<longrightarrow>
      buildFLUXGraph en st manager = Inl (AssertionError ''No CLIP Embed model found in state''))
 \<and> ((\<exists>m. mainModelConfig st = Some m \<and> base m = ''flux'')
      \<and> t5EncoderModel (paramsSlice st) \<noteq> None \<and> clipEmbedModel (paramsSlice st) \<noteq> None
      \<and> fluxVAE (paramsSlice st) = None \<longrightarrow>
      buildFLUXGraph en st manager = Inl (AssertionError ''No FLUX VAE model found in state''))
 \<and> (\<not> models_present st \<longrightarrow>
      (\<exists>msg\<in>precondition_messages. buildFLUXGraph en st manager = Inl (AssertionError msg)))
 \<and> (models_present st \<longrightarrow>
      (\<exists>rm. check_models st = Inr rm)
      \<and> (\<forall>msg\<in>precondition_messages. buildFLUXGraph en st manager \<noteq> Inl (AssertionError msg)))"
proof (intro conjI impI)
  assume "mainModelConfig st = None"
  then have "check_models st = Inl (AssertionError ''No model found in state'')"
    by (simp add: check_models_def)
  then show "buildFLUXGraph en st manager = Inl (AssertionError ''No model found in state'')"
    by (rule build_check_fails)
next
  assume "(\<exists>m. mainModelConfig st = Some m \<and> base m = ''flux'')
      \<and> t5EncoderModel (paramsSlice st) = None"
  then have "check_models st = Inl (AssertionError ''No T5 Encoder model found in state'')"
    by (auto simp: check_models_def)
  then show "buildFLUXGraph en st manager = Inl (AssertionError ''No T5 Encoder model found in state'')"
    by (rule build_check_fails)
next
  assume "(\<exists>m. mainModelConfig st = Some m \<and> base m = ''flux'')
      \<and> t5EncoderModel (paramsSlice st) \<noteq> None \<and> clipEmbedModel (paramsSlice st) = None"
  then have "check_models st = Inl (AssertionError ''No CLIP Embed model found in state'')"
    by (auto simp: check_models_def)
  then show "buildFLUXGraph en st manager = Inl (AssertionError ''No CLIP Embed model found in state'')"
    by (rule build_check_fails)
next
  assume "(\<exists>m. mainModelConfig st = Some m \<and> base m = ''flux'')
      \<and> t5EncoderModel (paramsSlice st) \<noteq> None \<and> clipEmbedModel (paramsSlice st) \<noteq> None
      \<and> fluxVAE (paramsSlice st) = None"
  then have "check_models st = Inl (AssertionError ''No FLUX VAE model found in state'')"
    by (auto simp: check_models_def)
  then show "buildFLUXGraph en st manager = Inl (AssertionError ''No FLUX VAE model found in state'')"
    by (rule build_check_fails)
next
  assume np: "\<not> models_present st"
  then obtain e where e: "check_models st = Inl e"
    using check_models_Inr by (cases "check_models st") auto
  from check_models_Inl[OF e] build_check_fails[OF e]
  show "\<exists>msg\<in>precondition_messages. buildFLUXGraph en st manager = Inl (AssertionError msg)"
    by auto
next
  assume "models_present st"
  then show "\<exists>rm. check_models st = Inr rm" using check_models_present by blast
next
  assume "models_present st"
  then obtain rm where rm: "check_models st = Inr rm" using check_models_present by blast
  show "\<forall>msg\<in>precondition_messages. buildFLUXGraph en st manager \<noteq> Inl (AssertionError msg)"
  proof (cases "resolve_guidance en (rm_model rm) (getGenerationMode en manager (activeTab st))
           (guidance (paramsSlice st))")
    case (Inl e)
    then have "e = UnsupportedGenerationModeError (i18n_t en ''toast.fluxFillIncompatibleWithT2IAndI2I'')"
      by (simp add: resolve_guidance_cases split: if_splits)
    with build_guidance_fails[OF rm Inl] show ?thesis by simp
  next
    case (Inr gd)
    show ?thesis
    proof (cases manager)
      case None
      note ba = build_after_checks[OF rm Inr, unfolded None]
      show ?thesis
        by (simp add: build_of_dispatch None ba dispatch_without_manager
            precondition_messages_def split: generation_mode.splits)
    next
      case (Some m)
      obtain r where "dispatch_mode en st (Some m) (isFLUXFill (rm_model rm))
             (getGenerationMode en (Some m) (activeTab st))
             (fst (build_base en st rm gd (fst (getSizes en (bbox (canvasSlice st))))
                    (snd (getSizes en (bbox (canvasSlice st))))))
             (fst (getSizes en (bbox (canvasSlice st))))
             (snd (getSizes en (bbox (canvasSlice st))))
             (denoising_start (paramsSlice st))
             (snd (build_base en st rm gd (fst (getSizes en (bbox (canvasSlice st))))
                    (snd (getSizes en (bbox (canvasSlice st)))))) = Inr r"
        unfolding dispatch_with_manager by blast
      then show ?thesis
        unfolding build_of_dispatch using build_after_checks[OF rm Inr] Some by simp
    qed
  qed
qed

theorem required_models_checked_witness:
  "\<not> models_present ((sample_state ''normal'')\<lparr>paramsSlice := sample_params\<lparr>fluxVAE := None\<rparr>\<rparr>)
   \<and> buildFLUXGraph (sample_env Txt2img)
       ((sample_state ''normal'')\<lparr>paramsSlice := sample_params\<lparr>fluxVAE := None\<rparr>\<rparr>) None
     = Inl (AssertionError ''No FLUX VAE model found in state'')
   \<and> models_present (sample_state ''normal'')
   \<and> buildFLUXGraph (sample_env Txt2img) (sample_state ''normal'') None
        \<noteq> Inl (AssertionError ''No FLUX VAE model found in state'')"
  using required_models_checked[of
      "(sample_state ''normal'')\<lparr>paramsSlice := sample_params\<lparr>fluxVAE := None\<rparr>\<rparr>"
      "sample_env Txt2img" None]
    required_models_checked[of "sample_state ''normal''" "sample_env Txt2img" None]
  by (simp add: models_present_def sample_state_def sample_model_def sample_params_def
      precondition_messages_def)

section \<open>Claim C1: FLUX Fill rejects two modes\<close>

text \<open>
  Claim C1, as amended.  With the fill variant selected and the mode \<open>txt2img\<close> or
  \<open>img2img\<close>, no graph is returned.  When the assertions of lines 67 to 71 pass, the error
  is \<open>UnsupportedGenerationModeError\<close> with the localized message; when one of them fails,
  its assertion error is raised instead, since those assertions run first.
\<close>

theorem fill_rejects_txt2img_img2img:
  assumes "mainModelConfig st = Some m" and "variant m = ''inpaint''"
    and "getGenerationMode en manager (activeTab st) = Txt2img
         \<or> getGenerationMode en manager (activeTab st) = Img2img"
  shows "(\<exists>e. buildFLUXGraph en st manager = Inl e)
       \<and> (models_present st \<longrightarrow> buildFLUXGraph en st manager =
            Inl (UnsupportedGenerationModeError
                   (i18n_t en ''toast.fluxFillIncompatibleWithT2IAndI2I'')))
       \<and> (\<forall>e. check_models st = Inl e \<longrightarrow> buildFLUXGraph en st manager = Inl e)"
proof (cases "check_models st")
  case (Inl e)
  then show ?thesis using build_check_fails[OF Inl] check_models_Inl[OF Inl] by auto
next
  case (Inr rm)
  from check_models_Inr[OF Inr] assms(1) have m: "rm_model rm = m" by simp
  have "resolve_guidance en (rm_model rm) (getGenerationMode en manager (activeTab st))
          (guidance (paramsSlice st))
     = Inl (UnsupportedGenerationModeError (i18n_t en ''toast.fluxFillIncompatibleWithT2IAndI2I''))"
    using assms(2,3) m by (auto simp: resolve_guidance_def isFLUXFill_def)
  from build_guidance_fails[OF Inr this] Inr show ?thesis by simp
qed

theorem fill_rejects_txt2img_img2img_witness:
  "mainModelConfig (sample_state ''inpaint'') = Some (sample_model ''inpaint'')
   \<and> variant (sample_model ''inpaint'') = ''inpaint''
   \<and> getGenerationMode (sample_env Txt2img) None (activeTab (sample_state ''inpaint'')) = Txt2img
   \<and> models_present (sample_state ''inpaint'')
   \<and> buildFLUXGraph (sample_env Txt2img) (sample_state ''inpaint'') None =
       Inl (UnsupportedGenerationModeError ''toast.fluxFillIncompatibleWithT2IAndI2I'')"
  using fill_rejects_txt2img_img2img[of "sample_state ''inpaint''" "sample_model ''inpaint''"
      "sample_env Txt2img" None]
  by (simp add: models_present_def sample_state_def sample_model_def sample_params_def
      sample_env_def)

text \<open>
  As first stated the claim promises the incompatibility error for every fill model in
  these modes.  With the VAE missing, the assertion of line 71 fires before line 88.
\<close>

theorem fill_with_missing_vae_counterexample:
  "mainModelConfig ((sample_state ''inpaint'')\<lparr>paramsSlice := sample_params\<lparr>fluxVAE := None\<rparr>\<rparr>)
     = Some (sample_model ''inpaint'')
   \<and> variant (sample_model ''inpaint'') = ''inpaint''
   \<and> getGenerationMode (sample_env Txt2img) None
       (activeTab ((sample_state ''inpaint'')\<lparr>paramsSlice := sample_params\<lparr>fluxVAE := None\<rparr>\<rparr>))
     = Txt2img
   \<and> buildFLUXGraph (sample_env Txt2img)
       ((sample_state ''inpaint'')\<lparr>paramsSlice := sample_params\<lparr>fluxVAE := None\<rparr>\<rparr>) None
     = Inl (AssertionError ''No FLUX VAE model found in state'')"
  by (simp add: sample_defs build_defs Let_def)

section \<open>Claim C6: the modes that need the canvas manager\<close>

text \<open>
  Claim C6, as amended.  Without a manager a graph is returned only for the mode
  \<open>txt2img\<close> with a model that is not the fill variant, and then it is returned.  In every
  other case the build ends in an error.  With the required models present, a model that is
  not the fill variant in the mode \<open>img2img\<close>, \<open>inpaint\<close> or \<open>outpaint\<close>, and the fill variant
  in the mode \<open>inpaint\<close> or \<open>outpaint\<close>, end in the assertion error that names the missing
  manager; the fill variant in the mode \<open>txt2img\<close> or \<open>img2img\<close> ends in the incompatibility
  error of line 89, which is raised before the manager is looked at.  With a required model
  missing the build ends in one of the assertion errors of lines 67 to 71.
\<close>

theorem manager_needed:
  "(\<forall>r. buildFLUXGraph en st None = Inr r \<longrightarrow>
       models_present st \<and> getGenerationMode en None (activeTab st) = Txt2img
       \<and> (\<exists>m. mainModelConfig st = Some m \<and> \<not> isFLUXFill m))
 \<and> (\<not> models_present st \<longrightarrow>
       (\<exists>msg\<in>precondition_messages. buildFLUXGraph en st None = Inl (AssertionError msg)))
 \<and> (\<forall>m. models_present st \<and> mainModelConfig st = Some m \<longrightarrow>
       (isFLUXFill m \<and> (getGenerationMode en None (activeTab st) = Txt2img
                         \<or> getGenerationMode en None (activeTab st) = Img2img) \<longrightarrow>
          buildFLUXGraph en st None =
            Inl (UnsupportedGenerationModeError
                   (i18n_t en ''toast.fluxFillIncompatibleWithT2IAndI2I'')))
     \<and> (isFLUXFill m \<and> (getGenerationMode en None (activeTab st) = Inpaint
                         \<or> getGenerationMode en None (activeTab st) = Outpaint) \<longrightarrow>
          buildFLUXGraph en st None = Inl (AssertionError ''Need manager to do FLUX Fill''))
     \<and> (\<not> isFLUXFill m \<and> getGenerationMode en None (activeTab st) = Img2img \<longrightarrow>
          buildFLUXGraph en st None = Inl (AssertionError ''Need manager to do img2img''))
     \<and> (\<not> isFLUXFill m \<and> getGenerationMode en None (activeTab st) = Inpaint \<longrightarrow>
          buildFLUXGraph en st None = Inl (AssertionError ''Need manager to do inpaint''))
     \<and> (\<not> isFLUXFill m \<and> getGenerationMode en None (activeTab st) = Outpaint \<longrightarrow>
          buildFLUXGraph en st None = Inl (AssertionError ''Need manager to do outpaint''))
     \<and> (\<not> isFLUXFill m \<and> getGenerationMode en None (activeTab st) = Txt2img \<longrightarrow>
          (\<exists>r. buildFLUXGraph en st None = Inr r)))"
proof (cases "check_models st")
  case (Inl e)
  from check_models_Inl[OF Inl] build_check_fails[OF Inl, of en None]
  show ?thesis by auto
next
  case (Inr rm)
  note present = check_models_Inr[OF Inr]
  show ?thesis
  proof (cases "resolve_guidance en (rm_model rm) (getGenerationMode en None (activeTab st))
           (guidance (paramsSlice st))")
    case (Inl e)
    from Inl have "isFLUXFill (rm_model rm)
        \<and> (getGenerationMode en None (activeTab st) = Txt2img
           \<or> getGenerationMode en None (activeTab st) = Img2img)
        \<and> e = UnsupportedGenerationModeError
                 (i18n_t en ''toast.fluxFillIncompatibleWithT2IAndI2I'')"
      by (simp add: resolve_guidance_cases split: if_splits)
    with build_guidance_fails[OF Inr Inl] present show ?thesis by auto
  next
    case (Inr gd)
    from Inr have ok: "\<not> (isFLUXFill (rm_model rm)
        \<and> (getGenerationMode en None (activeTab st) = Txt2img
           \<or> getGenerationMode en None (activeTab st) = Img2img))"
      by (simp add: resolve_guidance_cases split: if_splits)
    note ba = build_after_checks[OF \<open>check_models st = Inr rm\<close> Inr]
    from ok present show ?thesis
      by (cases "getGenerationMode en None (activeTab st)")
         (auto simp: build_of_dispatch ba dispatch_without_manager)
  qed
qed

theorem manager_needed_witness:
  "models_present (sample_state ''normal'')
   \<and> mainModelConfig (sample_state ''normal'') = Some (sample_model ''normal'')
   \<and> \<not> isFLUXFill (sample_model ''normal'')
   \<and> getGenerationMode (sample_env Inpaint) None (activeTab (sample_state ''normal'')) = Inpaint
   \<and> buildFLUXGraph (sample_env Inpaint) (sample_state ''normal'') None
       = Inl (AssertionError ''Need manager to do inpaint'')"
  using manager_needed[of "sample_env Inpaint" "sample_state ''normal''"]
  by (simp add: models_present_def sample_state_def sample_model_def sample_params_def
      sample_env_def isFLUXFill_def)

text \<open>
  As first stated the claim promises a precondition error for every image-conditioned mode.
  The fill variant in the mode \<open>img2img\<close> without a manager ends in the user-facing error.
\<close>

theorem fill_without_manager_counterexample:
  "models_present (sample_state ''inpaint'')
   \<and> isFLUXFill (sample_model ''inpaint'')
   \<and> mainModelConfig (sample_state ''inpaint'') = Some (sample_model ''inpaint'')
   \<and> getGenerationMode (sample_env Img2img) None (activeTab (sample_state ''inpaint'')) = Img2img
   \<and> buildFLUXGraph (sample_env Img2img) (sample_state ''inpaint'') None
       = Inl (UnsupportedGenerationModeError ''toast.fluxFillIncompatibleWithT2IAndI2I'')"
  by (simp add: models_present_def sample_defs build_defs Let_def)

section \<open>The shape of a build\<close>

lemma wire_base_nodes:
  "fst (wire_base st rm gd ssz) =
     \<lparr>modelLoader = (''flux_model_loader'', 1), posCond = (''flux_text_encoder'', 2),
      posCondCollect = (''pos_cond_collect'', 3), denoise = (''flux_denoise'', 4),
      l2i = (''flux_vae_decode'', 5)\<rparr>"
  by (simp add: wire_base_def add_fresh_node_def getPrefixedId_def Let_def case_prod_unfold)

lemma build_base_nodes:
  "fst (build_base en st rm gd osz ssz) =
     \<lparr>modelLoader = (''flux_model_loader'', 1), posCond = (''flux_text_encoder'', 2),
      posCondCollect = (''pos_cond_collect'', 3), denoise = (''flux_denoise'', 4),
      l2i = (''flux_vae_decode'', 5)\<rparr>"
  by (simp add: build_base_def Let_def case_prod_unfold wire_base_nodes)

lemma build_base_state:
  "snd (build_base en st rm gd osz ssz) =
     on_graph (upsertMetadata (initial_metadata en st rm gd osz))
       (addFLUXLoRAs en st (''flux_denoise'', 4) (''flux_model_loader'', 1)
          (''flux_text_encoder'', 2) (snd (wire_base st rm gd ssz)))"
  by (simp add: build_base_def Let_def case_prod_unfold wire_base_nodes)

lemma wire_base_metadata: "metadata (graph (snd (wire_base st rm gd ssz))) = Map.empty"
  by (simp add: wire_base_def add_fresh_node_def getPrefixedId_def Let_def case_prod_unfold
      on_graph_def addEdge_def addNode_def Graph_new_def)

lemma build_until_dispatch_Inr_conj:
  assumes "build_until_dispatch en st manager = Inr ctx"
  shows "check_models st = Inr (ctx_models ctx)
    \<and> \<not> (isFLUXFill (rm_model (ctx_models ctx))
          \<and> (getGenerationMode en manager (activeTab st) = Txt2img
             \<or> getGenerationMode en manager (activeTab st) = Img2img))
    \<and> ctx_nodes ctx = fst (build_base en st (ctx_models ctx)
         (if isFLUXFill (rm_model (ctx_models ctx)) then 30 else guidance (paramsSlice st))
         (fst (getSizes en (bbox (canvasSlice st)))) (snd (getSizes en (bbox (canvasSlice st)))))
    \<and> dispatch_mode en st manager (isFLUXFill (rm_model (ctx_models ctx)))
         (getGenerationMode en manager (activeTab st)) (ctx_nodes ctx)
         (fst (getSizes en (bbox (canvasSlice st)))) (snd (getSizes en (bbox (canvasSlice st))))
         (denoising_start (paramsSlice st))
         (snd (build_base en st (ctx_models ctx)
           (if isFLUXFill (rm_model (ctx_models ctx)) then 30 else guidance (paramsSlice st))
           (fst (getSizes en (bbox (canvasSlice st))))
           (snd (getSizes en (bbox (canvasSlice st))))))
       = Inr (ctx_canvasOutput ctx, ctx_state ctx)"
proof (cases "check_models st")
  case (Inl e)
  with assms show ?thesis by (simp add: build_until_dispatch_def Let_def case_prod_unfold)
next
  case (Inr rm)
  show ?thesis
  proof (cases "resolve_guidance en (rm_model rm) (getGenerationMode en manager (activeTab st))
           (guidance (paramsSlice st))")
    case (Inl e)
    with assms Inr show ?thesis by (simp add: build_until_dispatch_def Let_def case_prod_unfold)
  next
    case gd: (Inr gd)
    from gd have g: "gd = (if isFLUXFill (rm_model rm) then 30 else guidance (paramsSlice st))"
      and ok: "\<not> (isFLUXFill (rm_model rm)
          \<and> (getGenerationMode en manager (activeTab st) = Txt2img
             \<or> getGenerationMode en manager (activeTab st) = Img2img))"
      by (auto simp: resolve_guidance_cases split: if_splits)
    from assms build_after_checks[OF Inr gd] have
      "(case dispatch_mode en st manager (isFLUXFill (rm_model rm))
             (getGenerationMode en manager (activeTab st))
             (fst (build_base en st rm gd (fst (getSizes en (bbox (canvasSlice st))))
                    (snd (getSizes en (bbox (canvasSlice st))))))
             (fst (getSizes en (bbox (canvasSlice st))))
             (snd (getSizes en (bbox (canvasSlice st))))
             (denoising_start (paramsSlice st))
             (snd (build_base en st rm gd (fst (getSizes en (bbox (canvasSlice st))))
                    (snd (getSizes en (bbox (canvasSlice st)))))) of
        Inl e \<Rightarrow> Inl e
      | Inr r \<Rightarrow> Inr \<lparr>ctx_models = rm,
           ctx_nodes = fst (build_base en st rm gd (fst (getSizes en (bbox (canvasSlice st))))
                    (snd (getSizes en (bbox (canvasSlice st))))),
           ctx_canvasOutput = fst r, ctx_state = snd r\<rparr>) = Inr ctx" by simp
    then show ?thesis using Inr g ok
      by (auto split: sum.splits)
  qed
qed

lemma build_until_dispatch_InrD:
  assumes "build_until_dispatch en st manager = Inr ctx"
  shows "check_models st = Inr (ctx_models ctx)"
    and "\<not> (isFLUXFill (rm_model (ctx_models ctx))
          \<and> (getGenerationMode en manager (activeTab st) = Txt2img
             \<or> getGenerationMode en manager (activeTab st) = Img2img))"
    and "ctx_nodes ctx = fst (build_base en st (ctx_models ctx)
         (settled_guidance st (ctx_models ctx))
         (fst (getSizes en (bbox (canvasSlice st)))) (snd (getSizes en (bbox (canvasSlice st)))))"
    and "dispatch_mode en st manager (isFLUXFill (rm_model (ctx_models ctx)))
         (getGenerationMode en manager (activeTab st)) (ctx_nodes ctx)
         (fst (getSizes en (bbox (canvasSlice st)))) (snd (getSizes en (bbox (canvasSlice st))))
         (denoising_start (paramsSlice st))
         (snd (build_base en st (ctx_models ctx) (settled_guidance st (ctx_models ctx))
           (fst (getSizes en (bbox (canvasSlice st))))
           (snd (getSizes en (bbox (canvasSlice st))))))
       = Inr (ctx_canvasOutput ctx, ctx_state ctx)"
  using build_until_dispatch_Inr_conj[OF assms] unfolding settled_guidance_def by blast+

lemma build_Inr_iff:
  "buildFLUXGraph en st manager = Inr r \<longleftrightarrow>
     (\<exists>ctx. build_until_dispatch en st manager = Inr ctx \<and> r = finish_graph en st manager ctx)"
  by (auto simp: buildFLUXGraph_def split: sum.splits)

lemma ret_g_finish:
  "ret_g (finish_graph en st manager ctx) =
     setMetadataReceivingNode
       (fst (post_process en st (ctx_canvasOutput ctx) (add_features en st manager ctx)))
       (updateNode
         (fst (post_process en st (ctx_canvasOutput ctx) (add_features en st manager ctx)))
         (canvasOutputFields st)
         (upsertMetadata (canvasMetadata st)
           (graph (snd (post_process en st (ctx_canvasOutput ctx)
                          (add_features en st manager ctx))))))"
  by (simp add: finish_graph_def finalize_def on_graph_def Let_def case_prod_unfold)

section \<open>Relations kept by the stages\<close>

lemma env_stepsD:
  assumes "env_steps en R"
  shows "R s (addFLUXLoRAs en st a b c s)" "R s (snd (addFLUXFill en fa s))"
    "R s (snd (addTextToImage en ta s))" "R s (snd (addImageToImage en ia s))"
    "R s (snd (addInpaint en pa s))" "R s (snd (addOutpaint en pa s))"
    "R s (snd (addControlNets en ca s))" "R s (addControlLoRA en la s)"
    "R s (snd (addIPAdapters en ra s))" "R s (snd (addFLUXReduxes en ra s))"
    "R s (snd (addRegions en ga s))" "R s (snd (addNSFWChecker en out s))"
    "R s (snd (addWatermarker en out s))"
  using assms unfolding env_steps_def by (simp_all del: split_paired_All)

lemma env_steps_post: "env_steps en R \<Longrightarrow> post_steps en R"
  by (simp add: env_steps_def post_steps_def del: split_paired_All)

lemma env_steps_after_control: "env_steps en R \<Longrightarrow> after_control_steps en R"
  by (simp add: env_steps_def after_control_steps_def del: split_paired_All)

lemma after_control_post: "after_control_steps en R \<Longrightarrow> post_steps en R"
  by (simp add: after_control_steps_def post_steps_def del: split_paired_All)

lemma after_control_stepsD:
  assumes "after_control_steps en R"
  shows "R s (addControlLoRA en la s)"
    "R s (snd (addIPAdapters en ra s))" "R s (snd (addFLUXReduxes en ra s))"
    "R s (snd (addRegions en ga s))"
  using assms unfolding after_control_steps_def by (simp_all del: split_paired_All)

lemma post_process_rel:
  assumes post: "post_steps en R" and refl: "\<And>s. R s s"
    and trans: "\<And>a b c. R a b \<Longrightarrow> R b c \<Longrightarrow> R a c"
  shows "R s (snd (post_process en st out s))"
proof -
  from post have n: "\<And>a s. R s (snd (addNSFWChecker en a s))"
    and w: "\<And>a s. R s (snd (addWatermarker en a s))"
    by (simp_all add: post_steps_def del: split_paired_All)
  show ?thesis
    unfolding post_process_def Let_def case_prod_unfold
    by (auto intro: refl n w trans[OF n w])
qed

lemma fresh_node_id:
  "fst (add_fresh_node ty prefix fs s) = (prefix, id_supply s)"
  by (simp add: add_fresh_node_def getPrefixedId_def)

lemma add_control_adapters_rel:
  assumes env: "env_steps en R" and refl: "\<And>s. R s s"
    and trans: "\<And>a b c. R a b \<Longrightarrow> R b c \<Longrightarrow> R a c"
    and fresh: "\<And>s. R s (snd (add_fresh_node ''collect'' ''control_net_collector'' Map.empty s))"
    and wire: "\<And>a n s. R s (connect_or_delete a (''control_net_collector'', n) (denoise bn)
                               ''control'' s)"
  shows "R s (add_control_adapters en st manager model bn s)"
proof (cases manager)
  case None
  then show ?thesis by (simp add: add_control_adapters_def refl)
next
  case (Some m)
  define s1 where "s1 = snd (add_fresh_node ''collect'' ''control_net_collector'' Map.empty s)"
  define ca where "ca = \<lparr>cn_manager = m, cn_entities = entities (controlLayers (canvasSlice st)),
              cn_rect = rect (bbox (canvasSlice st)),
              cn_collector = (''control_net_collector'', id_supply s), cn_model = model\<rparr>"
  define s2 where "s2 = snd (addControlNets en ca s1)"
  define s3 where "s3 = connect_or_delete (fst (addControlNets en ca s1))
                          (''control_net_collector'', id_supply s) (denoise bn) ''control'' s2"
  define la where "la = \<lparr>cl_manager = m, cl_entities = entities (controlLayers (canvasSlice st)),
                 cl_rect = rect (bbox (canvasSlice st)), cl_denoise = denoise bn,
                 cl_model = model\<rparr>"
  have eq: "add_control_adapters en st manager model bn s = addControlLoRA en la s3"
    by (simp add: add_control_adapters_def collect_control_nets_def Some Let_def
        case_prod_unfold fresh_node_id s1_def s2_def s3_def ca_def la_def)
  have "R s s1" unfolding s1_def by (rule fresh)
  moreover have "R s1 s2" unfolding s2_def by (rule env_stepsD[OF env])
  moreover have "R s2 s3" unfolding s3_def by (rule wire)
  moreover have "R s3 (addControlLoRA en la s3)" by (rule env_stepsD[OF env])
  ultimately show ?thesis unfolding eq by (blast intro: trans)
qed

lemma collect_adapters_rel:
  assumes env: "after_control_steps en R"
    and trans: "\<And>a b c. R a b \<Longrightarrow> R b c \<Longrightarrow> R a c"
    and fresh: "\<And>s. R s (snd (add_fresh_node ''collect'' ''ip_adapter_collector'' Map.empty s))"
  shows "R s (snd (snd (snd (snd (collect_adapters en st manager model bn s)))))"
proof -
  define s1 where "s1 = snd (add_fresh_node ''collect'' ''ip_adapter_collector'' Map.empty s)"
  define ra where "ra = \<lparr>ri_entities = entities (refImagesSlice st),
      ri_collector = (''ip_adapter_collector'', id_supply s), ri_model = model\<rparr>"
  define s2 where "s2 = snd (addIPAdapters en ra s1)"
  define s3 where "s3 = snd (add_fresh_node ''collect'' ''ip_adapter_collector'' Map.empty s2)"
  define rb where "rb = \<lparr>ri_entities = entities (refImagesSlice st),
      ri_collector = (''ip_adapter_collector'', id_supply s2), ri_model = model\<rparr>"
  define s4 where "s4 = snd (addFLUXReduxes en rb s3)"
  have r4: "R s s4"
  proof -
    have "R s s1" unfolding s1_def by (rule fresh)
    moreover have "R s1 s2" unfolding s2_def by (rule after_control_stepsD[OF env])
    moreover have "R s2 s3" unfolding s3_def by (rule fresh)
    moreover have "R s3 s4" unfolding s4_def by (rule after_control_stepsD[OF env])
    ultimately show ?thesis by (blast intro: trans)
  qed
  show ?thesis
  proof (cases manager)
    case None
    have "snd (snd (snd (snd (collect_adapters en st manager model bn s)))) = s4"
      by (simp add: collect_adapters_def None Let_def case_prod_unfold fresh_node_id
          s1_def s2_def s3_def s4_def ra_def rb_def)
    with r4 show ?thesis by simp
  next
    case (Some m)
    define ga where "ga = \<lparr>rg_manager = m,
        rg_regions = entities (regionalGuidance (canvasSlice st)),
        rg_bbox = rect (bbox (canvasSlice st)), rg_model = model,
        rg_posCond = posCond bn, rg_negCond = None,
        rg_posCondCollect = posCondCollect bn, rg_negCondCollect = None,
        rg_ipAdapterCollect = (''ip_adapter_collector'', id_supply s),
        rg_fluxReduxCollect = (''ip_adapter_collector'', id_supply s2)\<rparr>"
    have "snd (snd (snd (snd (collect_adapters en st manager model bn s))))
            = snd (addRegions en ga s4)"
      by (simp add: collect_adapters_def Some Let_def case_prod_unfold fresh_node_id
          s1_def s2_def s3_def s4_def ra_def rb_def ga_def)
    moreover have "R s4 (snd (addRegions en ga s4))" by (rule after_control_stepsD[OF env])
    ultimately show ?thesis using r4 by (auto intro: trans)
  qed
qed

lemma collect_adapters_ids:
  "fst (collect_adapters en st manager model bn s) = (''ip_adapter_collector'', id_supply s)"
  "\<exists>n. fst (snd (collect_adapters en st manager model bn s)) = (''ip_adapter_collector'', n)"
  by (cases manager; simp add: collect_adapters_def Let_def case_prod_unfold fresh_node_id)+

lemma add_adapters_rel:
  assumes env: "after_control_steps en R" and refl: "\<And>s. R s s"
    and trans: "\<And>a b c. R a b \<Longrightarrow> R b c \<Longrightarrow> R a c"
    and fresh: "\<And>s. R s (snd (add_fresh_node ''collect'' ''ip_adapter_collector'' Map.empty s))"
    and wire: "\<And>a n f s. R s (connect_or_delete a (''ip_adapter_collector'', n) (denoise bn) f s)"
  shows "R s (add_adapters en st manager model bn s)"
proof -
  define c where "c = collect_adapters en st manager model bn s"
  define s5 where "s5 = snd (snd (snd (snd c)))"
  obtain n where n: "fst (snd c) = (''ip_adapter_collector'', n)"
    using collect_adapters_ids(2) unfolding c_def by blast
  have i: "fst c = (''ip_adapter_collector'', id_supply s)"
    using collect_adapters_ids(1) unfolding c_def by blast
  define s6 where "s6 = connect_or_delete (fst (snd (snd c))) (fst c) (denoise bn) ''ip_adapter'' s5"
  have eq: "add_adapters en st manager model bn s =
      connect_or_delete (fst (snd (snd (snd c)))) (fst (snd c)) (denoise bn)
        ''redux_conditioning'' s6"
    by (simp add: add_adapters_def Let_def case_prod_unfold c_def s5_def s6_def)
  have "R s s5" unfolding s5_def c_def by (rule collect_adapters_rel[OF env trans fresh])
  moreover have "R s5 s6" unfolding s6_def i by (rule wire)
  moreover have "R s6 (connect_or_delete (fst (snd (snd (snd c)))) (fst (snd c)) (denoise bn)
        ''redux_conditioning'' s6)" unfolding n by (rule wire)
  ultimately show ?thesis unfolding eq by (blast intro: trans)
qed

lemma add_features_rel:
  assumes env: "env_steps en R" and refl: "\<And>s. R s s"
    and trans: "\<And>a b c. R a b \<Longrightarrow> R b c \<Longrightarrow> R a c"
    and fresh: "\<And>p s. p = ''control_net_collector'' \<or> p = ''ip_adapter_collector'' \<Longrightarrow>
                    R s (snd (add_fresh_node ''collect'' p Map.empty s))"
    and wire: "\<And>a p n f s. p = ''control_net_collector'' \<or> p = ''ip_adapter_collector'' \<Longrightarrow>
                    R s (connect_or_delete a (p, n) (denoise (ctx_nodes ctx)) f s)"
  shows "R (ctx_state ctx) (add_features en st manager ctx)"
  unfolding add_features_def
  by (rule trans[OF add_control_adapters_rel[OF env refl trans fresh wire]
                    add_adapters_rel[OF env_steps_after_control[OF env] refl trans fresh wire]])
     simp_all

section \<open>The metadata through a build\<close>

lemma metadata_fresh_node [simp]:
  "metadata (graph (snd (add_fresh_node ty p fs s))) = metadata (graph s)"
  by (simp add: add_fresh_node_def getPrefixedId_def addNode_def)

lemma metadata_connect_or_delete [simp]:
  "metadata (graph (connect_or_delete a c dn f s)) = metadata (graph s)"
  by (simp add: connect_or_delete_def on_graph_def addEdge_def deleteNode_def)

lemma metadata_on_graph_addEdge [simp]:
  "metadata (graph (on_graph (addEdge a fa b fb) s)) = metadata (graph s)"
  by (simp add: on_graph_def addEdge_def)

lemma metadata_on_graph_upsert [simp]:
  "metadata (graph (on_graph (upsertMetadata md) s)) = metadata (graph s) ++ md"
  by (simp add: on_graph_def upsertMetadata_def)

lemma metadata_finish:
  "metadata (ret_g (finish_graph en st manager ctx)) =
     metadata (graph (snd (post_process en st (ctx_canvasOutput ctx)
                             (add_features en st manager ctx)))) ++ canvasMetadata st"
  by (simp add: ret_g_finish setMetadataReceivingNode_def updateNode_def upsertMetadata_def
      split: option.splits)

lemma same_metadata_at_trans:
  "same_metadata_at k a b \<Longrightarrow> same_metadata_at k b c \<Longrightarrow> same_metadata_at k a c"
  by (simp add: same_metadata_at_def)

lemma keeps_metadata_keys_trans:
  "keeps_metadata_keys a b \<Longrightarrow> keeps_metadata_keys b c \<Longrightarrow> keeps_metadata_keys a c"
  by (auto simp: keeps_metadata_keys_def)

lemma features_post_same_metadata:
  assumes "env_steps en (same_metadata_at k)"
  shows "same_metadata_at k (ctx_state ctx)
           (snd (post_process en st out (add_features en st manager ctx)))"
proof (rule same_metadata_at_trans)
  show "same_metadata_at k (ctx_state ctx) (add_features en st manager ctx)"
    by (rule add_features_rel[OF assms])
       (auto simp: same_metadata_at_def)
  show "same_metadata_at k (add_features en st manager ctx)
          (snd (post_process en st out (add_features en st manager ctx)))"
    by (rule post_process_rel[OF env_steps_post[OF assms]])
       (auto simp: same_metadata_at_def)
qed

lemma features_post_keeps_metadata_keys:
  assumes "env_steps en keeps_metadata_keys"
  shows "keeps_metadata_keys (ctx_state ctx)
           (snd (post_process en st out (add_features en st manager ctx)))"
proof (rule keeps_metadata_keys_trans)
  show "keeps_metadata_keys (ctx_state ctx) (add_features en st manager ctx)"
    by (rule add_features_rel[OF assms])
       (auto simp: keeps_metadata_keys_def)
  show "keeps_metadata_keys (add_features en st manager ctx)
          (snd (post_process en st out (add_features en st manager ctx)))"
    by (rule post_process_rel[OF env_steps_post[OF assms]])
       (auto simp: keeps_metadata_keys_def)
qed

lemma build_base_same_metadata:
  assumes "env_steps en (same_metadata_at k)"
  shows "metadata (graph (snd (build_base en st rm gd osz ssz))) k
           = initial_metadata en st rm gd osz k"
proof -
  from env_stepsD(1)[OF assms, of "snd (wire_base st rm gd ssz)" st]
  have "metadata (graph (addFLUXLoRAs en st (''flux_denoise'', 4) (''flux_model_loader'', 1)
               (''flux_text_encoder'', 2) (snd (wire_base st rm gd ssz)))) k = None"
    by (simp add: same_metadata_at_def wire_base_metadata)
  then show ?thesis unfolding build_base_state by (simp add: map_add_def split: option.splits)
qed

lemma build_base_metadata_keys:
  "dom (initial_metadata en st rm gd osz)
     \<subseteq> dom (metadata (graph (snd (build_base en st rm gd osz ssz))))"
  unfolding build_base_state by simp

lemma upsert_nothing [simp]: "on_graph (upsertMetadata Map.empty) s = s"
  by (simp add: on_graph_def upsertMetadata_def)

lemma dispatch_shape:
  assumes env: "env_steps en R"
    and d: "dispatch_mode en st manager fill mode bn osz ssz ds s = Inr (out, s')"
  shows "\<exists>s1. R s s1 \<and> s' = on_graph (upsertMetadata (mode_metadata fill mode)) s1"
proof (cases manager)
  case None
  from d show ?thesis
    unfolding None dispatch_without_manager
    using env_stepsD(3)[OF env]
    by (cases mode; auto simp: mode_metadata_def split: if_splits)
next
  case (Some m)
  from d show ?thesis
    unfolding Some dispatch_with_manager
    using env_stepsD(2)[OF env, of s "fill_arguments st m bn osz ssz"]
      env_stepsD(3)[OF env, of s "t2i_arguments bn osz ssz"]
      env_stepsD(4)[OF env, of s "i2i_arguments st m bn osz ssz ds"]
      env_stepsD(5)[OF env, of s "paint_arguments st m bn osz ssz ds"]
      env_stepsD(6)[OF env, of s "paint_arguments st m bn osz ssz ds"]
    by (cases mode; auto simp: mode_metadata_def split: if_splits)
qed

lemma dispatch_same_metadata:
  assumes env: "env_steps en (same_metadata_at k)"
    and d: "dispatch_mode en st manager fill mode bn osz ssz ds s = Inr (out, s')"
  shows "metadata (graph s') k = (metadata (graph s) ++ mode_metadata fill mode) k"
  using dispatch_shape[OF env d]
  by (auto simp: same_metadata_at_def map_add_def split: option.splits)

lemma dispatch_metadata_keys:
  assumes env: "env_steps en keeps_metadata_keys"
    and d: "dispatch_mode en st manager fill mode bn osz ssz ds s = Inr (out, s')"
  shows "dom (metadata (graph s)) \<union> dom (mode_metadata fill mode) \<subseteq> dom (metadata (graph s'))"
proof -
  from dispatch_shape[OF env d] obtain s1 where k: "keeps_metadata_keys s s1"
    and s': "s' = on_graph (upsertMetadata (mode_metadata fill mode)) s1" by blast
  have "dom (metadata (graph s')) = dom (mode_metadata fill mode) \<union> dom (metadata (graph s1))"
    unfolding s' by simp
  with k show ?thesis unfolding keeps_metadata_keys_def by blast
qed

lemma final_metadata_at:
  assumes env: "env_steps en (same_metadata_at k)"
    and b: "build_until_dispatch en st manager = Inr ctx"
  shows "metadata (ret_g (finish_graph en st manager ctx)) k =
           (initial_metadata en st (ctx_models ctx) (settled_guidance st (ctx_models ctx))
              (fst (getSizes en (bbox (canvasSlice st))))
            ++ mode_metadata (isFLUXFill (rm_model (ctx_models ctx)))
                 (getGenerationMode en manager (activeTab st))
            ++ canvasMetadata st) k"
proof -
  note d = build_until_dispatch_InrD(4)[OF b]
  have 1: "metadata (graph (ctx_state ctx)) k =
      (initial_metadata en st (ctx_models ctx) (settled_guidance st (ctx_models ctx))
              (fst (getSizes en (bbox (canvasSlice st))))
            ++ mode_metadata (isFLUXFill (rm_model (ctx_models ctx)))
                 (getGenerationMode en manager (activeTab st))) k"
    using dispatch_same_metadata[OF env d]
    by (simp add: map_add_def build_base_same_metadata[OF env] split: option.splits)
  have 2: "metadata (graph (snd (post_process en st (ctx_canvasOutput ctx)
                             (add_features en st manager ctx)))) k
             = metadata (graph (ctx_state ctx)) k"
    using features_post_same_metadata[OF env] by (simp add: same_metadata_at_def)
  show ?thesis unfolding metadata_finish using 1 2
    by (simp add: map_add_def split: option.splits)
qed

lemma final_metadata_keys:
  assumes env: "env_steps en keeps_metadata_keys"
    and b: "build_until_dispatch en st manager = Inr ctx"
  shows "dom (initial_metadata en st (ctx_models ctx) (settled_guidance st (ctx_models ctx))
              (fst (getSizes en (bbox (canvasSlice st)))))
          \<union> dom (mode_metadata (isFLUXFill (rm_model (ctx_models ctx)))
                 (getGenerationMode en manager (activeTab st)))
          \<union> dom (canvasMetadata st)
         \<subseteq> dom (metadata (ret_g (finish_graph en st manager ctx)))"
proof -
  note d = build_until_dispatch_InrD(4)[OF b]
  from dispatch_metadata_keys[OF env d] build_base_metadata_keys
  have 1: "dom (initial_metadata en st (ctx_models ctx) (settled_guidance st (ctx_models ctx))
              (fst (getSizes en (bbox (canvasSlice st)))))
          \<union> dom (mode_metadata (isFLUXFill (rm_model (ctx_models ctx)))
                 (getGenerationMode en manager (activeTab st)))
         \<subseteq> dom (metadata (graph (ctx_state ctx)))" by blast
  from features_post_keeps_metadata_keys[OF env]
  have 2: "dom (metadata (graph (ctx_state ctx)))
     \<subseteq> dom (metadata (graph (snd (post_process en st (ctx_canvasOutput ctx)
                             (add_features en st manager ctx)))))"
    by (simp add: keeps_metadata_keys_def)
  have "dom (metadata (ret_g (finish_graph en st manager ctx))) =
      dom (canvasMetadata st) \<union> dom (metadata (graph (snd (post_process en st
         (ctx_canvasOutput ctx) (add_features en st manager ctx)))))"
    unfolding metadata_finish by simp
  with 1 2 show ?thesis by blast
qed

section \<open>The sample environment keeps to the rules\<close>

lemma sample_env_same_metadata:
  "env_steps (sample_env mode) (same_metadata_at k)"
  by (simp add: env_steps_def sample_defs same_metadata_at_def add_fresh_node_def
      getPrefixedId_def on_graph_def graph_defs Let_def split: option.splits)

lemma sample_env_keeps_metadata_keys:
  "env_steps (sample_env mode) keeps_metadata_keys"
  by (simp add: env_steps_def sample_defs keeps_metadata_keys_def add_fresh_node_def
      getPrefixedId_def on_graph_def graph_defs Let_def split: option.splits)

lemma sample_check_models:
  "check_models (sample_state v) =
     Inr \<lparr>rm_model = sample_model v, rm_t5EncoderModel = ''t5'', rm_clipEmbedModel = ''clip'',
          rm_fluxVAE = ''flux-vae''\<rparr>"
  by (simp add: check_models_def sample_defs)

section \<open>Claim C10: the generation mode in the metadata\<close>

text \<open>
  Claim C10.  Of the five branches of lines 174 to 242, the four of \<open>txt2img\<close>, \<open>img2img\<close>,
  \<open>inpaint\<close> and \<open>outpaint\<close> merge the key \<open>generation_mode\<close> with the values \<open>flux_txt2img\<close>,
  \<open>flux_img2img\<close>, \<open>flux_inpaint\<close> and \<open>flux_outpaint\<close>; the branch of FLUX Fill merges
  nothing.  So, when no sub-builder touches that key, the metadata of a finished fill build
  has the key only if the canvas metadata merged at line 339 supplies it, and the metadata
  of any other build has it, with the value of its mode unless line 339 overrides it.
\<close>

theorem generation_mode_key:
  assumes b: "buildFLUXGraph en st manager = Inr r"
    and m: "mainModelConfig st = Some m"
    and env: "env_steps en (same_metadata_at ''generation_mode'')"
  shows "metadata (ret_g r) ''generation_mode'' =
     (case canvasMetadata st ''generation_mode'' of
        Some v \<Rightarrow> Some v
      | None \<Rightarrow>
          if isFLUXFill m then None
          else Some (JString (case getGenerationMode en manager (activeTab st) of
                                Txt2img \<Rightarrow> ''flux_txt2img''
                              | Img2img \<Rightarrow> ''flux_img2img''
                              | Inpaint \<Rightarrow> ''flux_inpaint''
                              | Outpaint \<Rightarrow> ''flux_outpaint'')))"
proof -
  from b obtain ctx where ctx: "build_until_dispatch en st manager = Inr ctx"
    and r: "r = finish_graph en st manager ctx"
    unfolding build_Inr_iff by blast
  from check_models_Inr[OF build_until_dispatch_InrD(1)[OF ctx]] m
  have rm: "rm_model (ctx_models ctx) = m" by simp
  show ?thesis
    unfolding r final_metadata_at[OF env ctx] rm
    by (cases "getGenerationMode en manager (activeTab st)")
       (simp_all add: map_add_def initial_metadata_def mode_metadata_def
          generation_mode_metadata_def split: option.splits)
qed

theorem generation_mode_key_witness:
  "env_steps (sample_env Inpaint) (same_metadata_at ''generation_mode'')
   \<and> (\<exists>r. buildFLUXGraph (sample_env Inpaint) (sample_state ''inpaint'')
             (Some (CanvasManager 0)) = Inr r
          \<and> metadata (ret_g r) ''generation_mode'' = None)
   \<and> (\<exists>r. buildFLUXGraph (sample_env Inpaint) (sample_state ''normal'')
             (Some (CanvasManager 0)) = Inr r
          \<and> metadata (ret_g r) ''generation_mode'' = Some (JString ''flux_inpaint''))"
proof -
  note env = sample_env_same_metadata[of Inpaint "''generation_mode''"]
  obtain r1 where r1: "buildFLUXGraph (sample_env Inpaint) (sample_state ''inpaint'')
             (Some (CanvasManager 0)) = Inr r1"
    by (simp add: sample_defs build_defs Let_def)
  obtain r2 where r2: "buildFLUXGraph (sample_env Inpaint) (sample_state ''normal'')
             (Some (CanvasManager 0)) = Inr r2"
    by (simp add: sample_defs build_defs Let_def)
  have "metadata (ret_g r1) ''generation_mode'' = None"
    using generation_mode_key[OF r1 _ env, of "sample_model ''inpaint''"]
    by (simp add: sample_defs isFLUXFill_def)
  moreover have "metadata (ret_g r2) ''generation_mode'' = Some (JString ''flux_inpaint'')"
    using generation_mode_key[OF r2 _ env, of "sample_model ''normal''"]
    by (simp add: sample_defs isFLUXFill_def)
  ultimately show ?thesis using env r1 r2 by simp
qed

section \<open>Claim C4: the metadata is the union of what was merged\<close>

text \<open>
  Claim C4.  In a finished build whose sub-builders remove no metadata key, every key of
  the three records that \<open>buildFLUXGraph\<close> merges (the parameters at line 149, the
  generation mode of the branch taken, the canvas metadata at line 339) is a key of the
  metadata of the graph, and the record merged last wins where it has a key.  When the
  sub-builders leave the metadata alone altogether, the metadata is exactly the three
  records merged in order, later over earlier, and its keys are the union of theirs.
\<close>

theorem metadata_accumulates:
  assumes b: "buildFLUXGraph en st manager = Inr r"
    and c: "check_models st = Inr rm"
    and env: "env_steps en keeps_metadata_keys"
  shows "(\<Union>md\<in>set (builder_metadata en st manager rm). dom md) \<subseteq> dom (metadata (ret_g r))
       \<and> (\<forall>k\<in>dom (canvasMetadata st). metadata (ret_g r) k = canvasMetadata st k)
       \<and> ((\<forall>k. env_steps en (same_metadata_at k)) \<longrightarrow>
            metadata (ret_g r) = foldl (++) Map.empty (builder_metadata en st manager rm)
          \<and> dom (metadata (ret_g r))
              = (\<Union>md\<in>set (builder_metadata en st manager rm). dom md))"
proof -
  from b obtain ctx where ctx: "build_until_dispatch en st manager = Inr ctx"
    and r: "r = finish_graph en st manager ctx"
    unfolding build_Inr_iff by blast
  from build_until_dispatch_InrD(1)[OF ctx] c have rm: "ctx_models ctx = rm" by simp
  have 1: "(\<Union>md\<in>set (builder_metadata en st manager rm). dom md) \<subseteq> dom (metadata (ret_g r))"
    using final_metadata_keys[OF env ctx] unfolding r rm builder_metadata_def by simp
  have 2: "\<forall>k\<in>dom (canvasMetadata st). metadata (ret_g r) k = canvasMetadata st k"
    unfolding r metadata_finish by (auto simp: map_add_def)
  have 3: "metadata (ret_g r) = foldl (++) Map.empty (builder_metadata en st manager rm)
          \<and> dom (metadata (ret_g r)) = (\<Union>md\<in>set (builder_metadata en st manager rm). dom md)"
    if all: "\<forall>k. env_steps en (same_metadata_at k)"
  proof -
    have "metadata (ret_g r) k = foldl (++) Map.empty (builder_metadata en st manager rm) k" for k
      using final_metadata_at[OF all[rule_format] ctx, of k]
      unfolding r rm builder_metadata_def by simp
    then have e: "metadata (ret_g r) = foldl (++) Map.empty (builder_metadata en st manager rm)"
      by (rule ext)
    show ?thesis unfolding e by (auto simp: builder_metadata_def)
  qed
  from 1 2 3 show ?thesis by blast
qed

theorem metadata_accumulates_witness:
  "env_steps (sample_env Txt2img) keeps_metadata_keys
   \<and> (\<forall>k. env_steps (sample_env Txt2img) (same_metadata_at k))
   \<and> (\<exists>r. buildFLUXGraph (sample_env Txt2img) (sample_state ''normal'') None = Inr r
        \<and> metadata (ret_g r) ''guidance'' = Some (JNumber 4)
        \<and> metadata (ret_g r) ''generation_mode'' = Some (JString ''flux_txt2img'')
        \<and> metadata (ret_g r) ''canvas_v2_metadata'' = Some (JString ''layers'')
        \<and> metadata (ret_g r) ''loras'' = None)"
proof -
  obtain r where r: "buildFLUXGraph (sample_env Txt2img) (sample_state ''normal'') None = Inr r"
    by (simp add: sample_defs build_defs Let_def)
  have all: "\<forall>k. env_steps (sample_env Txt2img) (same_metadata_at k)"
    by (simp add: sample_env_same_metadata)
  from metadata_accumulates[OF r sample_check_models sample_env_keeps_metadata_keys] all
  have e: "metadata (ret_g r) =
      foldl (++) Map.empty (builder_metadata (sample_env Txt2img) (sample_state ''normal'') None
          \<lparr>rm_model = sample_model ''normal'', rm_t5EncoderModel = ''t5'',
           rm_clipEmbedModel = ''clip'', rm_fluxVAE = ''flux-vae''\<rparr>)"
    by blast
  have "metadata (ret_g r) ''guidance'' = Some (JNumber 4)"
    "metadata (ret_g r) ''generation_mode'' = Some (JString ''flux_txt2img'')"
    "metadata (ret_g r) ''canvas_v2_metadata'' = Some (JString ''layers'')"
    "metadata (ret_g r) ''loras'' = None"
    unfolding e
    by (simp_all add: builder_metadata_def initial_metadata_def mode_metadata_def
        generation_mode_metadata_def settled_guidance_def sample_defs isFLUXFill_def
        map_add_def)
  with r all sample_env_keeps_metadata_keys[of Txt2img] show ?thesis by blast
qed

section \<open>The build up to the mode\<close>

lemma build_until_dispatch_with_manager:
  assumes c: "check_models st = Inr rm"
    and ok: "\<not> (isFLUXFill (rm_model rm)
          \<and> (getGenerationMode en (Some m) (activeTab st) = Txt2img
             \<or> getGenerationMode en (Some m) (activeTab st) = Img2img))"
    and sz: "getSizes en (bbox (canvasSlice st)) = (osz, ssz)"
    and bs: "build_base en st rm (settled_guidance st rm) osz ssz = (bn, s)"
  shows "build_until_dispatch en st (Some m) =
     Inr \<lparr>ctx_models = rm, ctx_nodes = bn,
          ctx_canvasOutput = fst (projr (dispatch_mode en st (Some m) (isFLUXFill (rm_model rm))
             (getGenerationMode en (Some m) (activeTab st)) bn osz ssz
             (denoising_start (paramsSlice st)) s)),
          ctx_state = snd (projr (dispatch_mode en st (Some m) (isFLUXFill (rm_model rm))
             (getGenerationMode en (Some m) (activeTab st)) bn osz ssz
             (denoising_start (paramsSlice st)) s))\<rparr>"
proof -
  have g: "resolve_guidance en (rm_model rm) (getGenerationMode en (Some m) (activeTab st))
           (guidance (paramsSlice st)) = Inr (settled_guidance st rm)"
    using ok by (auto simp: resolve_guidance_cases settled_guidance_def)
  show ?thesis
    unfolding build_after_checks[OF c g] sz fst_conv snd_conv bs dispatch_with_manager
    by simp
qed

lemma build_until_dispatch_txt2img:
  assumes c: "check_models st = Inr rm"
    and nf: "\<not> isFLUXFill (rm_model rm)"
    and t: "getGenerationMode en manager (activeTab st) = Txt2img"
    and sz: "getSizes en (bbox (canvasSlice st)) = (osz, ssz)"
    and bs: "build_base en st rm (settled_guidance st rm) osz ssz = (bn, s)"
  shows "build_until_dispatch en st manager =
     Inr \<lparr>ctx_models = rm, ctx_nodes = bn,
          ctx_canvasOutput = fst (addTextToImage en (t2i_arguments bn osz ssz) s),
          ctx_state = on_graph (upsertMetadata (generation_mode_metadata ''flux_txt2img''))
                        (snd (addTextToImage en (t2i_arguments bn osz ssz) s))\<rparr>"
proof -
  have g: "resolve_guidance en (rm_model rm) (getGenerationMode en manager (activeTab st))
           (guidance (paramsSlice st)) = Inr (settled_guidance st rm)"
    using nf by (auto simp: resolve_guidance_cases settled_guidance_def)
  show ?thesis
    unfolding build_after_checks[OF c g] sz fst_conv snd_conv bs t
    using nf by (cases manager) (simp_all add: dispatch_without_manager dispatch_with_manager)
qed

lemma receiver_finish:
  "metadata_receiver (ret_g (finish_graph en st manager ctx)) =
     Some (fst (post_process en st (ctx_canvasOutput ctx) (add_features en st manager ctx)))"
  by (simp add: ret_g_finish setMetadataReceivingNode_def)

lemma nodes_finish:
  "nodes (ret_g (finish_graph en st manager ctx)) =
     nodes (updateNode
       (fst (post_process en st (ctx_canvasOutput ctx) (add_features en st manager ctx)))
       (canvasOutputFields st)
       (graph (snd (post_process en st (ctx_canvasOutput ctx)
                      (add_features en st manager ctx)))))"
  by (simp add: ret_g_finish setMetadataReceivingNode_def updateNode_def upsertMetadata_def
      split: option.splits)

lemma post_process_unfold:
  "post_process en st out s =
     (if shouldUseWatermarker (system st)
      then addWatermarker en
             (fst (if shouldUseNSFWChecker (system st) then addNSFWChecker en out s else (out, s)))
             (snd (if shouldUseNSFWChecker (system st) then addNSFWChecker en out s else (out, s)))
      else (if shouldUseNSFWChecker (system st) then addNSFWChecker en out s else (out, s)))"
  by (simp add: post_process_def Let_def case_prod_unfold)

lemma keeps_node_trans: "keeps_node i a b \<Longrightarrow> keeps_node i b c \<Longrightarrow> keeps_node i a c"
  by (simp add: keeps_node_def)

section \<open>Claim C2: where denoising starts\<close>

text \<open>
  Claim C2.  For a strength between 0 and 1, the start of the denoising that
  \<open>buildFLUXGraph\<close> computes, and hands to \<open>addImageToImage\<close>, \<open>addInpaint\<close> or \<open>addOutpaint\<close>
  as \<open>denoising_start\<close>, is one minus the strength to the power 0.2 when the optimized
  denoising is enabled, and one minus the strength when it is not.  (Numbers are real
  numbers here; on this range the power of the reals is the one of JavaScript.)
\<close>

theorem denoising_start_passed:
  assumes lo: "0 \<le> img2imgStrength (paramsSlice st)"
    and hi: "img2imgStrength (paramsSlice st) \<le> 1"
    and c: "check_models st = Inr rm"
    and nf: "\<not> isFLUXFill (rm_model rm)"
    and sz: "getSizes en (bbox (canvasSlice st)) = (osz, ssz)"
    and bs: "build_base en st rm (guidance (paramsSlice st)) osz ssz = (bn, s)"
  shows "let str = img2imgStrength (paramsSlice st);
             ds = (if optimizedDenoisingEnabled (paramsSlice st) then 1 - str powr 0.2
                   else 1 - str);
             mode = getGenerationMode en (Some m) (activeTab st)
         in denoising_start (paramsSlice st) = ds
          \<and> (mode = Img2img \<longrightarrow>
               i2i_denoising_start (i2i_arguments st m bn osz ssz ds) = ds
             \<and> build_until_dispatch en st (Some m) =
                 Inr \<lparr>ctx_models = rm, ctx_nodes = bn,
                      ctx_canvasOutput =
                        fst (addImageToImage en (i2i_arguments st m bn osz ssz ds) s),
                      ctx_state =
                        on_graph (upsertMetadata (generation_mode_metadata ''flux_img2img''))
                          (snd (addImageToImage en (i2i_arguments st m bn osz ssz ds) s))\<rparr>)
          \<and> (mode = Inpaint \<longrightarrow>
               pa_denoising_start (paint_arguments st m bn osz ssz ds) = ds
             \<and> build_until_dispatch en st (Some m) =
                 Inr \<lparr>ctx_models = rm, ctx_nodes = bn,
                      ctx_canvasOutput =
                        fst (addInpaint en (paint_arguments st m bn osz ssz ds) s),
                      ctx_state =
                        on_graph (upsertMetadata (generation_mode_metadata ''flux_inpaint''))
                          (snd (addInpaint en (paint_arguments st m bn osz ssz ds) s))\<rparr>)
          \<and> (mode = Outpaint \<longrightarrow>
               pa_denoising_start (paint_arguments st m bn osz ssz ds) = ds
             \<and> build_until_dispatch en st (Some m) =
                 Inr \<lparr>ctx_models = rm, ctx_nodes = bn,
                      ctx_canvasOutput =
                        fst (addOutpaint en (paint_arguments st m bn osz ssz ds) s),
                      ctx_state =
                        on_graph (upsertMetadata (generation_mode_metadata ''flux_outpaint''))
                          (snd (addOutpaint en (paint_arguments st m bn osz ssz ds) s))\<rparr>)"
proof -
  have sg: "settled_guidance st rm = guidance (paramsSlice st)"
    using nf by (simp add: settled_guidance_def)
  have ok: "\<not> (isFLUXFill (rm_model rm)
          \<and> (getGenerationMode en (Some m) (activeTab st) = Txt2img
             \<or> getGenerationMode en (Some m) (activeTab st) = Img2img))"
    using nf by simp
  note b = build_until_dispatch_with_manager[OF c ok sz bs[folded sg]]
  show ?thesis
    unfolding Let_def b dispatch_with_manager
    using nf by (simp add: denoising_start_def i2i_arguments_def paint_arguments_def)
qed

theorem denoising_start_passed_witness:
  "0 \<le> img2imgStrength sample_params \<and> img2imgStrength sample_params \<le> 1
   \<and> denoising_start sample_params = 1 - 0.5 powr 0.2
   \<and> denoising_start (sample_params\<lparr>optimizedDenoisingEnabled := False\<rparr>) = 0.5
   \<and> (\<exists>ctx. build_until_dispatch (sample_env Img2img) (sample_state ''normal'')
               (Some (CanvasManager 0)) = Inr ctx
          \<and> node_field (graph (ctx_state ctx)) (''flux_denoise'', 4) ''denoising_start''
               = Some (JNumber (1 - 0.5 powr 0.2)))"
proof -
  let ?st = "sample_state ''normal''"
  let ?st' = "(sample_state ''normal'')
                \<lparr>paramsSlice := sample_params\<lparr>optimizedDenoisingEnabled := False\<rparr>\<rparr>"
  let ?rm = "\<lparr>rm_model = sample_model ''normal'', rm_t5EncoderModel = ''t5'',
              rm_clipEmbedModel = ''clip'', rm_fluxVAE = ''flux-vae''\<rparr>"
  let ?osz = "\<lparr>width = 1024, height = 768\<rparr>"
  let ?en = "sample_env Img2img"
  have c': "check_models ?st' = Inr ?rm" by (simp add: check_models_def sample_defs)
  have nf: "\<not> isFLUXFill (rm_model ?rm)" by (simp add: isFLUXFill_def sample_defs)
  have sz: "getSizes ?en (bbox (canvasSlice ?st)) = (?osz, ?osz)" by (simp add: sample_defs)
  have sz': "getSizes ?en (bbox (canvasSlice ?st')) = (?osz, ?osz)" by (simp add: sample_defs)
  have p: "paramsSlice ?st = sample_params" by (simp add: sample_defs)
  have p': "paramsSlice ?st' = sample_params\<lparr>optimizedDenoisingEnabled := False\<rparr>"
    by (simp add: sample_defs)
  have r: "0 \<le> img2imgStrength sample_params" "img2imgStrength sample_params \<le> 1"
    by (simp_all add: sample_params_def)
  have r': "0 \<le> img2imgStrength (paramsSlice ?st')" "img2imgStrength (paramsSlice ?st') \<le> 1"
    by (simp_all add: sample_defs)
  have m: "getGenerationMode ?en (Some (CanvasManager 0)) (activeTab ?st) = Img2img"
    by (simp add: sample_defs)
  note t1 = denoising_start_passed[OF r[folded p] sample_check_models nf sz surjective_pairing,
      of "CanvasManager 0", unfolded Let_def m p]
  note t2 = denoising_start_passed[OF r' c' nf sz' surjective_pairing,
      of "CanvasManager 0", unfolded Let_def p']
  from t1 have a: "denoising_start sample_params = 1 - 0.5 powr 0.2"
    by (simp add: sample_params_def)
  from t2 have b: "denoising_start (sample_params\<lparr>optimizedDenoisingEnabled := False\<rparr>) = 0.5"
    by (simp add: sample_params_def)
  from t1 have "\<exists>ctx. build_until_dispatch ?en ?st (Some (CanvasManager 0)) = Inr ctx
          \<and> node_field (graph (ctx_state ctx)) (''flux_denoise'', 4) ''denoising_start''
               = Some (JNumber (1 - 0.5 powr 0.2))"
    by (simp add: sample_defs build_defs graph_defs node_field_def Let_def)
  with a b r show ?thesis by blast
qed

section \<open>Claim C9: the safety filter and the watermark\<close>

text \<open>
  Claim C9.  Once the mode-specific sub-builder has returned its output node, the safety
  filter (if enabled) is applied to it, then the watermark (if enabled) to the result, and
  the node that comes out is the one that receives the metadata and the output fields.
  Every other node is left by lines 339 to 343 as the post-processing left it; with both
  toggles off the final node is the output node of the mode; and when the post-processing
  sub-builders keep that node as it is and return another one, it is in the finished graph
  exactly as it was before post-processing.
\<close>

theorem post_processing_rewrites_output:
  assumes ctx: "build_until_dispatch en st manager = Inr ctx"
  shows "\<exists>r. buildFLUXGraph en st manager = Inr r \<and>
     (let out = ctx_canvasOutput ctx;
          s2 = add_features en st manager ctx;
          p1 = (if shouldUseNSFWChecker (system st) then addNSFWChecker en out s2
                else (out, s2));
          p2 = (if shouldUseWatermarker (system st) then addWatermarker en (fst p1) (snd p1)
                else p1)
      in metadata_receiver (ret_g r) = Some (fst p2)
       \<and> nodes (ret_g r) (fst p2) =
           map_option (\<lambda>n. n\<lparr>nfields := nfields n ++ canvasOutputFields st\<rparr>)
             (nodes (graph (snd p2)) (fst p2))
       \<and> (\<forall>i. i \<noteq> fst p2 \<longrightarrow> nodes (ret_g r) i = nodes (graph (snd p2)) i)
       \<and> (\<not> shouldUseNSFWChecker (system st) \<and> \<not> shouldUseWatermarker (system st) \<longrightarrow>
            fst p2 = out)
       \<and> (post_steps en (keeps_node out) \<and> fst p2 \<noteq> out \<longrightarrow>
            (\<forall>n. nodes (graph s2) out = Some n \<longrightarrow> nodes (ret_g r) out = Some n)))"
proof -
  define out where "out = ctx_canvasOutput ctx"
  define s2 where "s2 = add_features en st manager ctx"
  define p1 where "p1 = (if shouldUseNSFWChecker (system st) then addNSFWChecker en out s2
                else (out, s2))"
  define p2 where "p2 = (if shouldUseWatermarker (system st)
                then addWatermarker en (fst p1) (snd p1) else p1)"
  have pp: "post_process en st out s2 = p2"
    unfolding post_process_unfold p2_def p1_def by simp
  have b: "buildFLUXGraph en st manager = Inr (finish_graph en st manager ctx)"
    by (simp add: buildFLUXGraph_def ctx)
  have 1: "metadata_receiver (ret_g (finish_graph en st manager ctx)) = Some (fst p2)"
    unfolding receiver_finish pp[unfolded out_def s2_def] ..
  have n: "nodes (ret_g (finish_graph en st manager ctx)) =
      nodes (updateNode (fst p2) (canvasOutputFields st) (graph (snd p2)))"
    unfolding nodes_finish pp[unfolded out_def s2_def] ..
  have 2: "nodes (ret_g (finish_graph en st manager ctx)) (fst p2) =
           map_option (\<lambda>n. n\<lparr>nfields := nfields n ++ canvasOutputFields st\<rparr>)
             (nodes (graph (snd p2)) (fst p2))"
    unfolding n by (simp add: updateNode_def split: option.splits)
  have 3: "\<forall>i. i \<noteq> fst p2 \<longrightarrow>
      nodes (ret_g (finish_graph en st manager ctx)) i = nodes (graph (snd p2)) i"
    unfolding n by (simp add: updateNode_def split: option.splits)
  have 4: "\<not> shouldUseNSFWChecker (system st) \<and> \<not> shouldUseWatermarker (system st) \<longrightarrow>
            fst p2 = out"
    by (simp add: p2_def p1_def)
  have 5: "\<forall>n. nodes (graph s2) out = Some n \<longrightarrow>
             nodes (ret_g (finish_graph en st manager ctx)) out = Some n"
    if k: "post_steps en (keeps_node out)" and ne: "fst p2 \<noteq> out"
  proof -
    have "keeps_node out s2 (snd (post_process en st out s2))"
      by (rule post_process_rel[OF k]) (auto simp: keeps_node_def)
    then have "keeps_node out s2 (snd p2)" unfolding pp .
    moreover have "nodes (ret_g (finish_graph en st manager ctx)) out
        = nodes (graph (snd p2)) out" by (rule 3[rule_format, OF not_sym[OF ne]])
    ultimately show ?thesis by (simp add: keeps_node_def)
  qed
  show ?thesis
    unfolding Let_def out_def[symmetric] s2_def[symmetric] p1_def[symmetric] p2_def[symmetric]
    using b 1 2 3 4 5 by blast
qed

theorem post_processing_rewrites_output_witness:
  "post_steps (sample_env Txt2img) (keeps_node (''flux_vae_decode'', 5))
   \<and> (\<exists>r. buildFLUXGraph (sample_env Txt2img)
             ((sample_state ''normal'')
                \<lparr>system := \<lparr>shouldUseNSFWChecker = True, shouldUseWatermarker = True\<rparr>\<rparr>) None
             = Inr r
        \<and> metadata_receiver (ret_g r) = Some (''watermarker'', 9)
        \<and> node_field (ret_g r) (''watermarker'', 9) ''is_intermediate'' = Some (JBoolean False)
        \<and> node_field (ret_g r) (''flux_vae_decode'', 5) ''is_intermediate'' = None)"
proof -
  let ?en = "sample_env Txt2img"
  let ?st = "(sample_state ''normal'')
                \<lparr>system := \<lparr>shouldUseNSFWChecker = True, shouldUseWatermarker = True\<rparr>\<rparr>"
  have k: "post_steps ?en (keeps_node (''flux_vae_decode'', 5))"
    by (simp add: post_steps_def keeps_node_def sample_defs add_fresh_node_def
        getPrefixedId_def on_graph_def graph_defs Let_def del: split_paired_All)
  obtain ctx where ctx: "build_until_dispatch ?en ?st None = Inr ctx"
    and o: "ctx_canvasOutput ctx = (''flux_vae_decode'', 5)"
    and i: "id_supply (ctx_state ctx) = 6"
    and n: "nodes (graph (ctx_state ctx)) (''flux_vae_decode'', 5) =
              Some \<lparr>ntype = ''flux_vae_decode'', nid = (''flux_vae_decode'', 5),
                    nfields = Map.empty\<rparr>"
    by (simp add: sample_defs build_defs graph_defs Let_def)
  have tg: "shouldUseNSFWChecker (system ?st)" "shouldUseWatermarker (system ?st)"
    "canvasOutputFields ?st = map_of [(''is_intermediate'', JBoolean False)]"
    "entities (refImagesSlice ?st) = [''ref'']"
    by (simp_all add: sample_state_def)
  have tg': "shouldUseNSFWChecker (system ?st) = True"
    "shouldUseWatermarker (system ?st) = True"
    by (simp_all add: sample_state_def)
  from post_processing_rewrites_output[OF ctx, unfolded Let_def tg' tg(3) o if_True]
  obtain r where r: "buildFLUXGraph ?en ?st None = Inr r"
    and rc: "metadata_receiver (ret_g r) =
       Some (fst (addWatermarker ?en
         (fst (addNSFWChecker ?en (''flux_vae_decode'', 5) (add_features ?en ?st None ctx)))
         (snd (addNSFWChecker ?en (''flux_vae_decode'', 5) (add_features ?en ?st None ctx)))))"
    and nd: "nodes (ret_g r) (fst (addWatermarker ?en
         (fst (addNSFWChecker ?en (''flux_vae_decode'', 5) (add_features ?en ?st None ctx)))
         (snd (addNSFWChecker ?en (''flux_vae_decode'', 5) (add_features ?en ?st None ctx))))) =
        map_option (\<lambda>n. n\<lparr>nfields := nfields n ++ map_of [(''is_intermediate'', JBoolean False)]\<rparr>)
         (nodes (graph (snd (addWatermarker ?en
         (fst (addNSFWChecker ?en (''flux_vae_decode'', 5) (add_features ?en ?st None ctx)))
         (snd (addNSFWChecker ?en (''flux_vae_decode'', 5) (add_features ?en ?st None ctx))))))
          (fst (addWatermarker ?en
         (fst (addNSFWChecker ?en (''flux_vae_decode'', 5) (add_features ?en ?st None ctx)))
         (snd (addNSFWChecker ?en (''flux_vae_decode'', 5) (add_features ?en ?st None ctx))))))"
    and kp: "post_steps ?en (keeps_node (''flux_vae_decode'', 5)) \<and>
       fst (addWatermarker ?en
         (fst (addNSFWChecker ?en (''flux_vae_decode'', 5) (add_features ?en ?st None ctx)))
         (snd (addNSFWChecker ?en (''flux_vae_decode'', 5) (add_features ?en ?st None ctx))))
         \<noteq> (''flux_vae_decode'', 5) \<longrightarrow>
       (\<forall>n. nodes (graph (add_features ?en ?st None ctx)) (''flux_vae_decode'', 5) = Some n \<longrightarrow>
            nodes (ret_g r) (''flux_vae_decode'', 5) = Some n)"
    by blast
  have sup: "id_supply (add_features ?en ?st None ctx) = 8"
    and nf: "nodes (graph (add_features ?en ?st None ctx)) (''flux_vae_decode'', 5) =
              Some \<lparr>ntype = ''flux_vae_decode'', nid = (''flux_vae_decode'', 5),
                    nfields = Map.empty\<rparr>"
    using i n
    by (simp_all add: add_features_def add_adapters_def collect_adapters_def
        add_control_adapters_def connect_or_delete_def add_fresh_node_def getPrefixedId_def
        on_graph_def sample_env_def tg graph_defs Let_def)
  have w: "fst (addWatermarker ?en
         (fst (addNSFWChecker ?en (''flux_vae_decode'', 5) (add_features ?en ?st None ctx)))
         (snd (addNSFWChecker ?en (''flux_vae_decode'', 5) (add_features ?en ?st None ctx))))
       = (''watermarker'', 9)"
    using sup
    by (simp add: sample_env_def sample_nsfw_def sample_watermark_def add_fresh_node_def
        getPrefixedId_def on_graph_def Let_def)
  have wn: "nodes (graph (snd (addWatermarker ?en
         (fst (addNSFWChecker ?en (''flux_vae_decode'', 5) (add_features ?en ?st None ctx)))
         (snd (addNSFWChecker ?en (''flux_vae_decode'', 5) (add_features ?en ?st None ctx))))))
         (''watermarker'', 9) = Some \<lparr>ntype = ''img_watermark'', nid = (''watermarker'', 9),
                    nfields = Map.empty\<rparr>"
    using sup
    by (simp add: sample_env_def sample_nsfw_def sample_watermark_def add_fresh_node_def
        getPrefixedId_def on_graph_def graph_defs Let_def)
  from rc w have 1: "metadata_receiver (ret_g r) = Some (''watermarker'', 9)" by simp
  from nd w wn have 2: "node_field (ret_g r) (''watermarker'', 9) ''is_intermediate''
      = Some (JBoolean False)"
    by (simp add: node_field_def)
  from kp k w nf have 3: "node_field (ret_g r) (''flux_vae_decode'', 5) ''is_intermediate'' = None"
    by (simp add: node_field_def)
  from k r 1 2 3 show ?thesis by blast
qed

section \<open>Claim C8: one sub-builder for the mode\<close>

text \<open>
  Claim C8, as amended.  For every valid combination of mode and model (the checks pass,
  the fill variant is not asked for \<open>txt2img\<close> or \<open>img2img\<close>, and a manager is there unless
  the mode is \<open>txt2img\<close> without the fill variant), the state after line 242 is the state
  after the base graph with exactly one of \<open>addFLUXFill\<close>, \<open>addTextToImage\<close>,
  \<open>addImageToImage\<close>, \<open>addInpaint\<close> and \<open>addOutpaint\<close> applied to it, and the node that it
  returns is the output node of the mode.  When neither the safety filter nor the watermark
  is enabled, that node is the metadata-receiving node of the finished graph.
\<close>

theorem one_mode_sub_builder:
  assumes c: "check_models st = Inr rm"
    and ok: "\<not> (isFLUXFill (rm_model rm)
          \<and> (getGenerationMode en manager (activeTab st) = Txt2img
             \<or> getGenerationMode en manager (activeTab st) = Img2img))"
    and mgr: "manager = None \<longrightarrow>
          \<not> isFLUXFill (rm_model rm) \<and> getGenerationMode en manager (activeTab st) = Txt2img"
    and sz: "getSizes en (bbox (canvasSlice st)) = (osz, ssz)"
    and bs: "build_base en st rm (settled_guidance st rm) osz ssz = (bn, s)"
  shows "\<exists>ctx. build_until_dispatch en st manager = Inr ctx
      \<and> ctx_models ctx = rm \<and> ctx_nodes ctx = bn
      \<and> (isFLUXFill (rm_model rm) \<longrightarrow>
           (\<forall>m. manager = Some m \<longrightarrow>
              (ctx_canvasOutput ctx, ctx_state ctx)
                = addFLUXFill en (fill_arguments st m bn osz ssz) s))
      \<and> (\<not> isFLUXFill (rm_model rm)
           \<and> getGenerationMode en manager (activeTab st) = Txt2img \<longrightarrow>
           ctx_canvasOutput ctx = fst (addTextToImage en (t2i_arguments bn osz ssz) s)
         \<and> ctx_state ctx = on_graph (upsertMetadata (generation_mode_metadata ''flux_txt2img''))
               (snd (addTextToImage en (t2i_arguments bn osz ssz) s)))
      \<and> (\<not> isFLUXFill (rm_model rm)
           \<and> getGenerationMode en manager (activeTab st) = Img2img \<longrightarrow>
           (\<forall>m. manager = Some m \<longrightarrow>
              ctx_canvasOutput ctx = fst (addImageToImage en
                 (i2i_arguments st m bn osz ssz (denoising_start (paramsSlice st))) s)
            \<and> ctx_state ctx =
                on_graph (upsertMetadata (generation_mode_metadata ''flux_img2img''))
                  (snd (addImageToImage en
                     (i2i_arguments st m bn osz ssz (denoising_start (paramsSlice st))) s))))
      \<and> (\<not> isFLUXFill (rm_model rm)
           \<and> getGenerationMode en manager (activeTab st) = Inpaint \<longrightarrow>
           (\<forall>m. manager = Some m \<longrightarrow>
              ctx_canvasOutput ctx = fst (addInpaint en
                 (paint_arguments st m bn osz ssz (denoising_start (paramsSlice st))) s)
            \<and> ctx_state ctx =
                on_graph (upsertMetadata (generation_mode_metadata ''flux_inpaint''))
                  (snd (addInpaint en
                     (paint_arguments st m bn osz ssz (denoising_start (paramsSlice st))) s))))
      \<and> (\<not> isFLUXFill (rm_model rm)
           \<and> getGenerationMode en manager (activeTab st) = Outpaint \<longrightarrow>
           (\<forall>m. manager = Some m \<longrightarrow>
              ctx_canvasOutput ctx = fst (addOutpaint en
                 (paint_arguments st m bn osz ssz (denoising_start (paramsSlice st))) s)
            \<and> ctx_state ctx =
                on_graph (upsertMetadata (generation_mode_metadata ''flux_outpaint''))
                  (snd (addOutpaint en
                     (paint_arguments st m bn osz ssz (denoising_start (paramsSlice st))) s))))
      \<and> (\<not> shouldUseNSFWChecker (system st) \<and> \<not> shouldUseWatermarker (system st) \<longrightarrow>
           (\<exists>r. buildFLUXGraph en st manager = Inr r
              \<and> metadata_receiver (ret_g r) = Some (ctx_canvasOutput ctx)))"
proof -
  have rcv: "\<not> shouldUseNSFWChecker (system st) \<and> \<not> shouldUseWatermarker (system st) \<longrightarrow>
           (\<exists>r. buildFLUXGraph en st manager = Inr r
              \<and> metadata_receiver (ret_g r) = Some (ctx_canvasOutput ctx))"
    if "build_until_dispatch en st manager = Inr ctx" for ctx
    using that by (simp add: buildFLUXGraph_def receiver_finish post_process_unfold)
  show ?thesis
  proof (cases manager)
    case None
    with mgr have nf: "\<not> isFLUXFill (rm_model rm)"
      and t: "getGenerationMode en manager (activeTab st) = Txt2img" by simp_all
    note b = build_until_dispatch_txt2img[OF c nf t sz bs]
    from rcv[OF b] show ?thesis using nf t by (simp add: b)
  next
    case (Some m)
    note b = build_until_dispatch_with_manager[OF c ok[unfolded Some] sz bs, folded Some]
    from rcv[OF b] ok show ?thesis
      unfolding Some
      by (cases "getGenerationMode en (Some m) (activeTab st)")
         (simp_all add: b[unfolded Some] dispatch_with_manager)
  qed
qed

theorem one_mode_sub_builder_witness:
  "\<exists>ctx r. build_until_dispatch (sample_env Inpaint) (sample_state ''normal'')
              (Some (CanvasManager 0)) = Inr ctx
      \<and> ctx_canvasOutput ctx = (''flux_vae_decode'', 5)
      \<and> buildFLUXGraph (sample_env Inpaint) (sample_state ''normal'')
              (Some (CanvasManager 0)) = Inr r
      \<and> metadata_receiver (ret_g r) = Some (''flux_vae_decode'', 5)"
proof -
  let ?en = "sample_env Inpaint"
  let ?st = "sample_state ''normal''"
  let ?rm = "\<lparr>rm_model = sample_model ''normal'', rm_t5EncoderModel = ''t5'',
              rm_clipEmbedModel = ''clip'', rm_fluxVAE = ''flux-vae''\<rparr>"
  let ?osz = "\<lparr>width = 1024, height = 768\<rparr>"
  have nf: "\<not> isFLUXFill (rm_model ?rm)" by (simp add: isFLUXFill_def sample_defs)
  have ok: "\<not> (isFLUXFill (rm_model ?rm)
          \<and> (getGenerationMode ?en (Some (CanvasManager 0)) (activeTab ?st) = Txt2img
             \<or> getGenerationMode ?en (Some (CanvasManager 0)) (activeTab ?st) = Img2img))"
    using nf by simp
  have mgr: "Some (CanvasManager 0) = None \<longrightarrow> \<not> isFLUXFill (rm_model ?rm)
      \<and> getGenerationMode ?en (Some (CanvasManager 0)) (activeTab ?st) = Txt2img" by simp
  have sz: "getSizes ?en (bbox (canvasSlice ?st)) = (?osz, ?osz)" by (simp add: sample_defs)
  have md: "getGenerationMode ?en (Some (CanvasManager 0)) (activeTab ?st) = Inpaint"
    by (simp add: sample_defs)
  have tg: "\<not> shouldUseNSFWChecker (system ?st) \<and> \<not> shouldUseWatermarker (system ?st)"
    by (simp add: sample_defs)
  have out: "fst (addInpaint ?en (paint_arguments ?st (CanvasManager 0)
                 (fst (build_base ?en ?st ?rm (settled_guidance ?st ?rm) ?osz ?osz)) ?osz ?osz
                 (denoising_start (paramsSlice ?st)))
               (snd (build_base ?en ?st ?rm (settled_guidance ?st ?rm) ?osz ?osz)))
             = (''flux_vae_decode'', 5)"
    by (simp add: sample_env_def paint_arguments_def build_base_nodes)
  from one_mode_sub_builder[OF sample_check_models ok mgr sz surjective_pairing] nf md tg out
  show ?thesis by auto
qed

text \<open>
  As first stated the claim makes the node returned by the mode-specific sub-builder the
  receiver in every build.  With the safety filter enabled, in the sample environment, the
  mode returns the decoder node and the receiver is the node of the safety filter.
\<close>

theorem receiver_with_safety_filter_counterexample:
  "map_sum id ctx_canvasOutput
      (build_until_dispatch (sample_env Txt2img)
         ((sample_state ''normal'')
            \<lparr>system := \<lparr>shouldUseNSFWChecker = True, shouldUseWatermarker = False\<rparr>\<rparr>) None)
     = Inr (''flux_vae_decode'', 5)
   \<and> map_sum id (metadata_receiver \<circ> ret_g)
      (buildFLUXGraph (sample_env Txt2img)
         ((sample_state ''normal'')
            \<lparr>system := \<lparr>shouldUseNSFWChecker = True, shouldUseWatermarker = False\<rparr>\<rparr>) None)
     = Inr (Some (''nsfw_checker'', 8))"
  by (simp add: sample_defs build_defs graph_defs Let_def)

section \<open>The denoise node through a build\<close>

lemma wire_base_denoise_field:
  "node_field (graph (snd (wire_base st rm gd ssz))) (''flux_denoise'', 4) ''guidance''
     = Some (JNumber gd)"
  by (simp add: wire_base_def add_fresh_node_def getPrefixedId_def Let_def case_prod_unfold
      on_graph_def addEdge_def addNode_def Graph_new_def node_field_def)

lemma keeps_field_refl: "keeps_field i k s s"
  by (simp add: keeps_field_def)

lemma keeps_field_trans: "keeps_field i k a b \<Longrightarrow> keeps_field i k b c \<Longrightarrow> keeps_field i k a c"
  by (simp add: keeps_field_def)

lemma keeps_field_fresh_node:
  "p \<noteq> fst i \<Longrightarrow> keeps_field i k s (snd (add_fresh_node ty p fs s))"
  by (cases i) (simp add: keeps_field_def node_field_def add_fresh_node_def getPrefixedId_def
      addNode_def)

lemma keeps_field_connect_or_delete:
  "p \<noteq> fst i \<Longrightarrow> keeps_field i k s (connect_or_delete a (p, n) dn f s)"
  by (cases i) (simp add: keeps_field_def node_field_def connect_or_delete_def on_graph_def
      addEdge_def deleteNode_def)

lemma node_field_upsert [simp]:
  "node_field (graph (on_graph (upsertMetadata md) s)) i k = node_field (graph s) i k"
  by (simp add: node_field_def on_graph_def upsertMetadata_def)

lemma build_base_denoise_field:
  assumes "env_steps en (keeps_field (''flux_denoise'', 4) ''guidance'')"
  shows "node_field (graph (snd (build_base en st rm gd osz ssz))) (''flux_denoise'', 4)
           ''guidance'' = Some (JNumber gd)"
  using env_stepsD(1)[OF assms, of "snd (wire_base st rm gd ssz)" st
      "(''flux_denoise'', 4)" "(''flux_model_loader'', 1)" "(''flux_text_encoder'', 2)"]
  unfolding build_base_state
  by (simp add: keeps_field_def wire_base_denoise_field)

lemma dispatch_denoise_field:
  assumes env: "env_steps en (keeps_field i k)"
    and d: "dispatch_mode en st manager fill mode bn osz ssz ds s = Inr (out, s')"
    and f: "node_field (graph s) i k = Some v"
  shows "node_field (graph s') i k = Some v"
  using dispatch_shape[OF env d] f by (auto simp: keeps_field_def)

lemma features_post_denoise_field:
  assumes env: "env_steps en (keeps_field (''flux_denoise'', 4) k)"
  shows "keeps_field (''flux_denoise'', 4) k (ctx_state ctx)
           (snd (post_process en st out (add_features en st manager ctx)))"
proof (rule keeps_field_trans)
  show "keeps_field (''flux_denoise'', 4) k (ctx_state ctx) (add_features en st manager ctx)"
    by (rule add_features_rel[OF env keeps_field_refl])
       (auto intro: keeps_field_trans keeps_field_fresh_node keeps_field_connect_or_delete)
  show "keeps_field (''flux_denoise'', 4) k (add_features en st manager ctx)
          (snd (post_process en st out (add_features en st manager ctx)))"
    by (rule post_process_rel[OF env_steps_post[OF env] keeps_field_refl])
       (rule keeps_field_trans)
qed

lemma node_field_finish:
  assumes "k \<notin> dom (canvasOutputFields st)"
  shows "node_field (ret_g (finish_graph en st manager ctx)) i k =
     node_field (graph (snd (post_process en st (ctx_canvasOutput ctx)
                               (add_features en st manager ctx)))) i k"
  using assms
  by (auto simp: node_field_def nodes_finish updateNode_def map_add_def domIff
      split: option.splits)

lemma seed_field_finish:
  "seedFieldIdentifier (finish_graph en st manager ctx)
     = \<lparr>nodeId = denoise (ctx_nodes ctx), fieldName = ''seed''\<rparr>"
  by (simp add: finish_graph_def finalize_def Let_def case_prod_unfold)

lemma ctx_nodes_known:
  assumes "build_until_dispatch en st manager = Inr ctx"
  shows "ctx_nodes ctx =
     \<lparr>modelLoader = (''flux_model_loader'', 1), posCond = (''flux_text_encoder'', 2),
      posCondCollect = (''pos_cond_collect'', 3), denoise = (''flux_denoise'', 4),
      l2i = (''flux_vae_decode'', 5)\<rparr>"
  unfolding build_until_dispatch_InrD(3)[OF assms] build_base_nodes ..

section \<open>Claim C7: the guidance of FLUX Fill\<close>

text \<open>
  Claim C7.  In a finished build with the fill variant, whose mode is then \<open>inpaint\<close> or
  \<open>outpaint\<close>, the guidance is the constant 30, whatever the user supplied, both in the
  denoise node (the node that the seed field identifier names) and in the metadata; with
  any other model it is the guidance of the parameters, in both places.  This is so when no
  sub-builder changes the guidance field of the denoise node or the guidance key of the
  metadata, and neither the canvas metadata nor the output fields carry a guidance of their
  own.
\<close>

theorem guidance_of_fill:
  assumes b: "buildFLUXGraph en st manager = Inr r"
    and m: "mainModelConfig st = Some m"
    and kf: "env_steps en (keeps_field (''flux_denoise'', 4) ''guidance'')"
    and km: "env_steps en (same_metadata_at ''guidance'')"
    and cm: "''guidance'' \<notin> dom (canvasMetadata st)"
    and cf: "''guidance'' \<notin> dom (canvasOutputFields st)"
  shows "nodeId (seedFieldIdentifier r) = (''flux_denoise'', 4)
       \<and> node_field (ret_g r) (nodeId (seedFieldIdentifier r)) ''guidance''
           = Some (JNumber (if isFLUXFill m then 30 else guidance (paramsSlice st)))
       \<and> metadata (ret_g r) ''guidance''
           = Some (JNumber (if isFLUXFill m then 30 else guidance (paramsSlice st)))
       \<and> (isFLUXFill m \<longrightarrow> getGenerationMode en manager (activeTab st) = Inpaint
                            \<or> getGenerationMode en manager (activeTab st) = Outpaint)"
proof -
  from b obtain ctx where ctx: "build_until_dispatch en st manager = Inr ctx"
    and r: "r = finish_graph en st manager ctx"
    unfolding build_Inr_iff by blast
  note D = build_until_dispatch_InrD[OF ctx]
  from check_models_Inr[OF D(1)] m have rm: "rm_model (ctx_models ctx) = m" by simp
  have sg: "settled_guidance st (ctx_models ctx)
              = (if isFLUXFill m then 30 else guidance (paramsSlice st))"
    by (simp add: settled_guidance_def rm)
  have 1: "nodeId (seedFieldIdentifier r) = (''flux_denoise'', 4)"
    unfolding r seed_field_finish by (simp add: ctx_nodes_known[OF ctx])
  have "node_field (graph (ctx_state ctx)) (''flux_denoise'', 4) ''guidance''
          = Some (JNumber (settled_guidance st (ctx_models ctx)))"
    by (rule dispatch_denoise_field[OF kf D(4) build_base_denoise_field[OF kf]])
  with features_post_denoise_field[OF kf, of ctx st "ctx_canvasOutput ctx" manager]
  have "node_field (graph (snd (post_process en st (ctx_canvasOutput ctx)
                               (add_features en st manager ctx)))) (''flux_denoise'', 4)
          ''guidance'' = Some (JNumber (settled_guidance st (ctx_models ctx)))"
    by (simp add: keeps_field_def)
  then have 2: "node_field (ret_g r) (nodeId (seedFieldIdentifier r)) ''guidance''
           = Some (JNumber (if isFLUXFill m then 30 else guidance (paramsSlice st)))"
    unfolding r seed_field_finish ctx_nodes_known[OF ctx] node_field_finish[OF cf] sg
    by simp
  have 3: "metadata (ret_g r) ''guidance''
           = Some (JNumber (if isFLUXFill m then 30 else guidance (paramsSlice st)))"
    unfolding r final_metadata_at[OF km ctx] sg using cm
    by (cases "getGenerationMode en manager (activeTab st)")
       (simp_all add: map_add_def initial_metadata_def mode_metadata_def
          generation_mode_metadata_def domIff split: option.splits)
  have 4: "isFLUXFill m \<longrightarrow> getGenerationMode en manager (activeTab st) = Inpaint
                            \<or> getGenerationMode en manager (activeTab st) = Outpaint"
    using D(2) unfolding rm
    by (cases "getGenerationMode en manager (activeTab st)") simp_all
  from 1 2 3 4 show ?thesis by blast
qed

lemma sample_env_keeps_guidance:
  "env_steps (sample_env mode) (keeps_field (''flux_denoise'', 4) ''guidance'')"
  by (simp add: env_steps_def sample_defs keeps_field_def node_field_def add_fresh_node_def
      getPrefixedId_def on_graph_def graph_defs Let_def map_add_def
      split: option.splits del: split_paired_All)

theorem guidance_of_fill_witness:
  "env_steps (sample_env Outpaint) (keeps_field (''flux_denoise'', 4) ''guidance'')
   \<and> env_steps (sample_env Outpaint) (same_metadata_at ''guidance'')
   \<and> isFLUXFill (sample_model ''inpaint'') \<and> \<not> isFLUXFill (sample_model ''normal'')
   \<and> (\<exists>r. buildFLUXGraph (sample_env Outpaint) (sample_state ''inpaint'')
             (Some (CanvasManager 0)) = Inr r
        \<and> node_field (ret_g r) (nodeId (seedFieldIdentifier r)) ''guidance'' = Some (JNumber 30)
        \<and> metadata (ret_g r) ''guidance'' = Some (JNumber 30))
   \<and> (\<exists>r. buildFLUXGraph (sample_env Outpaint) (sample_state ''normal'')
             (Some (CanvasManager 0)) = Inr r
        \<and> node_field (ret_g r) (nodeId (seedFieldIdentifier r)) ''guidance'' = Some (JNumber 4)
        \<and> metadata (ret_g r) ''guidance'' = Some (JNumber 4))"
proof -
  note kf = sample_env_keeps_guidance[of Outpaint]
  note km = sample_env_same_metadata[of Outpaint "''guidance''"]
  have f: "isFLUXFill (sample_model ''inpaint'')" "\<not> isFLUXFill (sample_model ''normal'')"
    by (simp_all add: isFLUXFill_def sample_model_def)
  have h: "mainModelConfig (sample_state v) = Some (sample_model v)"
    "''guidance'' \<notin> dom (canvasMetadata (sample_state v))"
    "''guidance'' \<notin> dom (canvasOutputFields (sample_state v))"
    "guidance (paramsSlice (sample_state v)) = 4" for v
    by (simp_all add: sample_state_def sample_params_def)
  obtain r1 where r1: "buildFLUXGraph (sample_env Outpaint) (sample_state ''inpaint'')
             (Some (CanvasManager 0)) = Inr r1"
    by (simp add: sample_defs build_defs Let_def)
  obtain r2 where r2: "buildFLUXGraph (sample_env Outpaint) (sample_state ''normal'')
             (Some (CanvasManager 0)) = Inr r2"
    by (simp add: sample_defs build_defs Let_def)
  from guidance_of_fill[OF r1 h(1) kf km h(2,3), THEN conjunct2] f h(4)
  have 1: "node_field (ret_g r1) (nodeId (seedFieldIdentifier r1)) ''guidance''
             = Some (JNumber 30)" "metadata (ret_g r1) ''guidance'' = Some (JNumber 30)"
    by simp_all
  from guidance_of_fill[OF r2 h(1) kf km h(2,3), THEN conjunct2] f h(4)
  have 2: "node_field (ret_g r2) (nodeId (seedFieldIdentifier r2)) ''guidance''
             = Some (JNumber 4)" "metadata (ret_g r2) ''guidance'' = Some (JNumber 4)"
    by simp_all
  from kf km f r1 r2 1 2 show ?thesis by blast
qed

section \<open>Collectors through a build\<close>

lemma keeps_absent_refl: "keeps_absent i s s"
  by (simp add: keeps_absent_def)

lemma keeps_absent_trans: "keeps_absent i a b \<Longrightarrow> keeps_absent i b c \<Longrightarrow> keeps_absent i a c"
  by (simp add: keeps_absent_def)

lemma keeps_absent_fresh_node:
  "p \<noteq> fst i \<Longrightarrow> keeps_absent i s (snd (add_fresh_node ty p fs s))"
  by (cases i) (simp add: keeps_absent_def add_fresh_node_def getPrefixedId_def addNode_def)

lemma keeps_absent_connect_or_delete: "keeps_absent i s (connect_or_delete a c dn f s)"
  by (auto simp: keeps_absent_def connect_or_delete_def on_graph_def addEdge_def
      deleteNode_def)

lemma keeps_edge_refl: "keeps_edge e s s"
  by (simp add: keeps_edge_def)

lemma keeps_edge_trans: "keeps_edge e a b \<Longrightarrow> keeps_edge e b c \<Longrightarrow> keeps_edge e a c"
  by (simp add: keeps_edge_def)

lemma keeps_edge_fresh_node: "keeps_edge e s (snd (add_fresh_node ty p fs s))"
  by (simp add: keeps_edge_def add_fresh_node_def getPrefixedId_def addNode_def)

lemma keeps_edge_connect_or_delete:
  "source_node e \<noteq> c \<Longrightarrow> destination_node e \<noteq> c \<Longrightarrow>
     keeps_edge e s (connect_or_delete a c dn f s)"
  by (simp add: keeps_edge_def connect_or_delete_def on_graph_def addEdge_def deleteNode_def)

lemma connect_or_delete_positive:
  "0 < a \<Longrightarrow> collector_edge c dn f \<in> set (edges (graph (connect_or_delete a c dn f s)))"
  by (simp add: connect_or_delete_def on_graph_def addEdge_def collector_edge_def)

lemma connect_or_delete_zero:
  "a \<le> 0 \<Longrightarrow> c \<notin> dom (nodes (graph (connect_or_delete a c dn f s)))"
  by (simp add: connect_or_delete_def on_graph_def deleteNode_def)

lemma absent_finish:
  assumes post: "post_steps en (keeps_absent c)"
    and a: "c \<notin> dom (nodes (graph (add_features en st manager ctx)))"
  shows "c \<notin> dom (nodes (ret_g (finish_graph en st manager ctx)))"
proof -
  have "keeps_absent c (add_features en st manager ctx)
          (snd (post_process en st (ctx_canvasOutput ctx) (add_features en st manager ctx)))"
    by (rule post_process_rel[OF post keeps_absent_refl]) (rule keeps_absent_trans)
  with a show ?thesis
    unfolding nodes_finish
    by (auto simp: keeps_absent_def updateNode_def split: option.splits)
qed

lemma edges_finish:
  "edges (ret_g (finish_graph en st manager ctx)) =
     edges (graph (snd (post_process en st (ctx_canvasOutput ctx)
                          (add_features en st manager ctx))))"
  by (simp add: ret_g_finish setMetadataReceivingNode_def updateNode_def upsertMetadata_def
      split: option.splits)

lemma edge_finish:
  assumes post: "post_steps en (keeps_edge e)"
    and e: "e \<in> set (edges (graph (add_features en st manager ctx)))"
  shows "e \<in> set (edges (ret_g (finish_graph en st manager ctx)))"
proof -
  have "keeps_edge e (add_features en st manager ctx)
          (snd (post_process en st (ctx_canvasOutput ctx) (add_features en st manager ctx)))"
    by (rule post_process_rel[OF post keeps_edge_refl]) (rule keeps_edge_trans)
  with e show ?thesis unfolding edges_finish by (simp add: keeps_edge_def)
qed

lemma id_supply_fresh_node [simp]:
  "id_supply (snd (add_fresh_node ty p fs s)) = Suc (id_supply s)"
  by (simp add: add_fresh_node_def getPrefixedId_def)

lemma id_supply_connect_or_delete [simp]:
  "id_supply (connect_or_delete a c dn f s) = id_supply s"
  by (simp add: connect_or_delete_def on_graph_def)

text \<open>Lines 244 to 271 and lines 273 to 315, call by call.\<close>

lemma add_control_adapters_calls:
  "add_control_adapters en st (Some m) model bn s =
     addControlLoRA en
       \<lparr>cl_manager = m, cl_entities = entities (controlLayers (canvasSlice st)),
        cl_rect = rect (bbox (canvasSlice st)), cl_denoise = denoise bn, cl_model = model\<rparr>
       (connect_or_delete
          (fst (addControlNets en
             \<lparr>cn_manager = m, cn_entities = entities (controlLayers (canvasSlice st)),
              cn_rect = rect (bbox (canvasSlice st)),
              cn_collector = (''control_net_collector'', id_supply s), cn_model = model\<rparr>
             (snd (add_fresh_node ''collect'' ''control_net_collector'' Map.empty s))))
          (''control_net_collector'', id_supply s) (denoise bn) ''control''
          (snd (addControlNets en
             \<lparr>cn_manager = m, cn_entities = entities (controlLayers (canvasSlice st)),
              cn_rect = rect (bbox (canvasSlice st)),
              cn_collector = (''control_net_collector'', id_supply s), cn_model = model\<rparr>
             (snd (add_fresh_node ''collect'' ''control_net_collector'' Map.empty s)))))"
  by (simp add: add_control_adapters_def collect_control_nets_def Let_def case_prod_unfold
      fresh_node_id)

lemma collect_adapters_calls:
  "collect_adapters en st manager model bn s =
     (let ipc = (''ip_adapter_collector'', id_supply s);
          ipAdapterResult = addIPAdapters en
             \<lparr>ri_entities = entities (refImagesSlice st), ri_collector = ipc,
              ri_model = model\<rparr>
             (snd (add_fresh_node ''collect'' ''ip_adapter_collector'' Map.empty s));
          rdc = (''ip_adapter_collector'', id_supply (snd ipAdapterResult));
          fluxReduxResult = addFLUXReduxes en
             \<lparr>ri_entities = entities (refImagesSlice st), ri_collector = rdc,
              ri_model = model\<rparr>
             (snd (add_fresh_node ''collect'' ''ip_adapter_collector'' Map.empty
                     (snd ipAdapterResult)));
          regionsCall = (case manager of
             None \<Rightarrow> ([], snd fluxReduxResult)
           | Some m \<Rightarrow> addRegions en
               \<lparr>rg_manager = m, rg_regions = entities (regionalGuidance (canvasSlice st)),
                rg_bbox = rect (bbox (canvasSlice st)), rg_model = model,
                rg_posCond = posCond bn, rg_negCond = None,
                rg_posCondCollect = posCondCollect bn, rg_negCondCollect = None,
                rg_ipAdapterCollect = ipc, rg_fluxReduxCollect = rdc\<rparr>
               (snd fluxReduxResult))
      in (ipc, rdc,
          fst ipAdapterResult + foldl (\<lambda>acc r. acc + addedIPAdapters r) 0 (fst regionsCall),
          fst fluxReduxResult + foldl (\<lambda>acc r. acc + addedFLUXReduxes r) 0 (fst regionsCall),
          snd regionsCall))"
  by (cases manager)
     (simp_all add: collect_adapters_def Let_def case_prod_unfold fresh_node_id)

lemma add_adapters_calls:
  "add_adapters en st manager model bn s =
     connect_or_delete (fst (snd (snd (snd (collect_adapters en st manager model bn s)))))
       (fst (snd (collect_adapters en st manager model bn s))) (denoise bn)
       ''redux_conditioning''
       (connect_or_delete (fst (snd (snd (collect_adapters en st manager model bn s))))
          (fst (collect_adapters en st manager model bn s)) (denoise bn) ''ip_adapter''
          (snd (snd (snd (snd (collect_adapters en st manager model bn s))))))"
  by (simp add: add_adapters_def Let_def case_prod_unfold)

lemma add_adapters_keeps_absent:
  assumes ac: "after_control_steps en (keeps_absent c)"
    and p: "fst c \<noteq> ''ip_adapter_collector''"
  shows "keeps_absent c s (add_adapters en st manager model bn s)"
  using p
  by (intro add_adapters_rel[OF ac keeps_absent_refl])
     (auto intro: keeps_absent_trans keeps_absent_fresh_node keeps_absent_connect_or_delete)

lemma add_adapters_keeps_edge:
  assumes ac: "after_control_steps en (keeps_edge e)"
    and src: "fst (source_node e) \<noteq> ''ip_adapter_collector''"
    and dst: "fst (destination_node e) \<noteq> ''ip_adapter_collector''"
  shows "keeps_edge e s (add_adapters en st manager model bn s)"
proof (rule add_adapters_rel[OF ac keeps_edge_refl])
  show "\<And>a b c. keeps_edge e a b \<Longrightarrow> keeps_edge e b c \<Longrightarrow> keeps_edge e a c"
    by (rule keeps_edge_trans)
  show "\<And>s. keeps_edge e s
          (snd (add_fresh_node ''collect'' ''ip_adapter_collector'' Map.empty s))"
    by (rule keeps_edge_fresh_node)
  show "\<And>a n f s. keeps_edge e s
          (connect_or_delete a (''ip_adapter_collector'', n) (denoise bn) f s)"
    using src dst by (intro keeps_edge_connect_or_delete) auto
qed

lemma collect_adapters_parts:
  fixes en st manager model bn s
  defines "ipc \<equiv> (''ip_adapter_collector'', id_supply s)"
  defines "ipAdapterResult \<equiv> addIPAdapters en
             \<lparr>ri_entities = entities (refImagesSlice st), ri_collector = ipc,
              ri_model = model\<rparr>
             (snd (add_fresh_node ''collect'' ''ip_adapter_collector'' Map.empty s))"
  defines "rdc \<equiv> (''ip_adapter_collector'', id_supply (snd ipAdapterResult))"
  defines "fluxReduxResult \<equiv> addFLUXReduxes en
             \<lparr>ri_entities = entities (refImagesSlice st), ri_collector = rdc,
              ri_model = model\<rparr>
             (snd (add_fresh_node ''collect'' ''ip_adapter_collector'' Map.empty
                     (snd ipAdapterResult)))"
  defines "regionsResult \<equiv> (case manager of
             None \<Rightarrow> []
           | Some m \<Rightarrow> fst (addRegions en
               \<lparr>rg_manager = m, rg_regions = entities (regionalGuidance (canvasSlice st)),
                rg_bbox = rect (bbox (canvasSlice st)), rg_model = model,
                rg_posCond = posCond bn, rg_negCond = None,
                rg_posCondCollect = posCondCollect bn, rg_negCondCollect = None,
                rg_ipAdapterCollect = ipc, rg_fluxReduxCollect = rdc\<rparr>
               (snd fluxReduxResult)))"
  shows "fst (collect_adapters en st manager model bn s) = ipc"
    and "fst (snd (collect_adapters en st manager model bn s)) = rdc"
    and "fst (snd (snd (collect_adapters en st manager model bn s))) =
           fst ipAdapterResult + foldl (\<lambda>acc r. acc + addedIPAdapters r) 0 regionsResult"
    and "fst (snd (snd (snd (collect_adapters en st manager model bn s)))) =
           fst fluxReduxResult + foldl (\<lambda>acc r. acc + addedFLUXReduxes r) 0 regionsResult"
  unfolding ipc_def ipAdapterResult_def rdc_def fluxReduxResult_def regionsResult_def
  by (cases manager;
      simp add: collect_adapters_def Let_def case_prod_unfold fresh_node_id)+

lemma sample_env_keeps_absent:
  "fst c \<noteq> ''nsfw_checker'' \<Longrightarrow> fst c \<noteq> ''watermarker'' \<Longrightarrow>
     after_control_steps (sample_env mode) (keeps_absent c)"
  by (cases c)
     (simp add: after_control_steps_def sample_defs keeps_absent_def add_fresh_node_def
        getPrefixedId_def on_graph_def graph_defs Let_def del: split_paired_All)

lemma sample_env_keeps_edge: "after_control_steps (sample_env mode) (keeps_edge e)"
  by (simp add: after_control_steps_def sample_defs keeps_edge_def add_fresh_node_def
      getPrefixedId_def on_graph_def graph_defs Let_def del: split_paired_All)

section \<open>Claim C3: a collector is connected or deleted\<close>

text \<open>
  Claim C3.  For each of the three features with a collector node, take the collector that
  \<open>buildFLUXGraph\<close> creates and hands to the feature, and the number of items wired in:
  for the control nets (which are there only with a manager) what \<open>addControlNets\<close>
  reports; for the IP adapters what \<open>addIPAdapters\<close> reports plus what the regions of
  \<open>addRegions\<close> report; for the FLUX reduxes what \<open>addFLUXReduxes\<close> reports plus what the
  regions report.  If the number is positive, the edge from the \<open>collection\<close> output of the
  collector into the denoise node is in the finished graph; if it is zero (or less), the
  collector is not a node of the finished graph.  What is asked of the sub-builders is only
  this: those called after the collector was connected do not remove that edge, those called
  after it was deleted put no node under its identifier, and, for the edge of the IP
  adapters, \<open>addIPAdapters\<close> does not turn the identifier supply back (so that the two
  collectors of the reference images are distinct).
\<close>

theorem collectors_connected_or_deleted:
  assumes ctx: "build_until_dispatch en st manager = Inr ctx"
  shows "\<exists>r. buildFLUXGraph en st manager = Inr r \<and>
    (let model = rm_model (ctx_models ctx);
         bn = ctx_nodes ctx;
         t0 = ctx_state ctx
     in (\<forall>m. manager = Some m \<longrightarrow>
           (let c = (''control_net_collector'', id_supply t0);
                controlNetResult = addControlNets en
                  \<lparr>cn_manager = m, cn_entities = entities (controlLayers (canvasSlice st)),
                   cn_rect = rect (bbox (canvasSlice st)), cn_collector = c,
                   cn_model = model\<rparr>
                  (snd (add_fresh_node ''collect'' ''control_net_collector'' Map.empty t0))
            in (0 < fst controlNetResult
                \<and> after_control_steps en (keeps_edge (collector_edge c (denoise bn) ''control''))
                \<longrightarrow> collector_edge c (denoise bn) ''control'' \<in> set (edges (ret_g r)))
             \<and> (fst controlNetResult \<le> 0 \<and> after_control_steps en (keeps_absent c)
                \<longrightarrow> c \<notin> dom (nodes (ret_g r)))))
      \<and> (let t = add_control_adapters en st manager model bn t0;
              ipc = (''ip_adapter_collector'', id_supply t);
              ipAdapterResult = addIPAdapters en
                \<lparr>ri_entities = entities (refImagesSlice st), ri_collector = ipc,
                 ri_model = model\<rparr>
                (snd (add_fresh_node ''collect'' ''ip_adapter_collector'' Map.empty t));
              rdc = (''ip_adapter_collector'', id_supply (snd ipAdapterResult));
              fluxReduxResult = addFLUXReduxes en
                \<lparr>ri_entities = entities (refImagesSlice st), ri_collector = rdc,
                 ri_model = model\<rparr>
                (snd (add_fresh_node ''collect'' ''ip_adapter_collector'' Map.empty
                        (snd ipAdapterResult)));
              regionsResult = (case manager of
                 None \<Rightarrow> []
               | Some m \<Rightarrow> fst (addRegions en
                   \<lparr>rg_manager = m, rg_regions = entities (regionalGuidance (canvasSlice st)),
                    rg_bbox = rect (bbox (canvasSlice st)), rg_model = model,
                    rg_posCond = posCond bn, rg_negCond = None,
                    rg_posCondCollect = posCondCollect bn, rg_negCondCollect = None,
                    rg_ipAdapterCollect = ipc, rg_fluxReduxCollect = rdc\<rparr>
                   (snd fluxReduxResult)));
              totalIPAdaptersAdded = fst ipAdapterResult
                 + foldl (\<lambda>acc r. acc + addedIPAdapters r) 0 regionsResult;
              totalReduxesAdded = fst fluxReduxResult
                 + foldl (\<lambda>acc r. acc + addedFLUXReduxes r) 0 regionsResult
          in (0 < totalIPAdaptersAdded
              \<and> (\<forall>a s. id_supply s \<le> id_supply (snd (addIPAdapters en a s)))
              \<and> post_steps en (keeps_edge (collector_edge ipc (denoise bn) ''ip_adapter''))
              \<longrightarrow> collector_edge ipc (denoise bn) ''ip_adapter'' \<in> set (edges (ret_g r)))
           \<and> (totalIPAdaptersAdded \<le> 0 \<and> post_steps en (keeps_absent ipc)
              \<longrightarrow> ipc \<notin> dom (nodes (ret_g r)))
           \<and> (0 < totalReduxesAdded
              \<and> post_steps en (keeps_edge (collector_edge rdc (denoise bn) ''redux_conditioning''))
              \<longrightarrow> collector_edge rdc (denoise bn) ''redux_conditioning''
                    \<in> set (edges (ret_g r)))
           \<and> (totalReduxesAdded \<le> 0 \<and> post_steps en (keeps_absent rdc)
              \<longrightarrow> rdc \<notin> dom (nodes (ret_g r)))))"
proof -
  define model where "model = rm_model (ctx_models ctx)"
  define bn where "bn = ctx_nodes ctx"
  define t0 where "t0 = ctx_state ctx"
  define t where "t = add_control_adapters en st manager model bn t0"
  define r where "r = finish_graph en st manager ctx"
  have F: "add_features en st manager ctx = add_adapters en st manager model bn t"
    by (simp add: add_features_def t_def model_def bn_def t0_def)
  have dn: "denoise bn = (''flux_denoise'', 4)"
    unfolding bn_def ctx_nodes_known[OF ctx] by simp
  have b: "buildFLUXGraph en st manager = Inr r"
    by (simp add: buildFLUXGraph_def ctx r_def)
  note absent_final = absent_finish[of en _ st manager ctx, unfolded F, folded r_def]
  note edge_final = edge_finish[of en _ st manager ctx, unfolded F, folded r_def]
  have control: "(0 < fst controlNetResult
         \<and> after_control_steps en (keeps_edge (collector_edge c (denoise bn) ''control''))
         \<longrightarrow> collector_edge c (denoise bn) ''control'' \<in> set (edges (ret_g r)))
       \<and> (fst controlNetResult \<le> 0 \<and> after_control_steps en (keeps_absent c)
         \<longrightarrow> c \<notin> dom (nodes (ret_g r)))"
    if m: "manager = Some m"
      and c: "c = (''control_net_collector'', id_supply t0)"
      and res: "controlNetResult = addControlNets en
                  \<lparr>cn_manager = m, cn_entities = entities (controlLayers (canvasSlice st)),
                   cn_rect = rect (bbox (canvasSlice st)), cn_collector = c,
                   cn_model = model\<rparr>
                  (snd (add_fresh_node ''collect'' ''control_net_collector'' Map.empty t0))"
    for m c controlNetResult
  proof -
    define w where "w = connect_or_delete (fst controlNetResult) c (denoise bn) ''control''
                          (snd controlNetResult)"
    obtain la where t_eq: "t = addControlLoRA en la w"
      unfolding t_def m add_control_adapters_calls w_def res c by blast
    let ?e = "collector_edge c (denoise bn) ''control''"
    have pos: "?e \<in> set (edges (ret_g r))"
      if a: "0 < fst controlNetResult" and ac: "after_control_steps en (keeps_edge ?e)"
    proof -
      have "?e \<in> set (edges (graph w))"
        unfolding w_def by (rule connect_or_delete_positive[OF a])
      with after_control_stepsD(1)[OF ac, of w la]
      have "?e \<in> set (edges (graph t))" unfolding t_eq by (simp add: keeps_edge_def)
      moreover have "keeps_edge ?e t (add_adapters en st manager model bn t)"
        by (rule add_adapters_keeps_edge[OF ac]) (simp_all add: collector_edge_def c dn)
      ultimately show ?thesis
        by (intro edge_final[OF after_control_post[OF ac]]) (simp add: keeps_edge_def)
    qed
    have zero: "c \<notin> dom (nodes (ret_g r))"
      if a: "fst controlNetResult \<le> 0" and ac: "after_control_steps en (keeps_absent c)"
    proof -
      have "c \<notin> dom (nodes (graph w))"
        unfolding w_def by (rule connect_or_delete_zero[OF a])
      with after_control_stepsD(1)[OF ac, of w la]
      have "c \<notin> dom (nodes (graph t))" unfolding t_eq by (simp add: keeps_absent_def)
      moreover have "keeps_absent c t (add_adapters en st manager model bn t)"
        by (rule add_adapters_keeps_absent[OF ac]) (simp add: c)
      ultimately show ?thesis
        by (intro absent_final[OF after_control_post[OF ac]]) (simp add: keeps_absent_def)
    qed
    from pos zero show ?thesis by blast
  qed
  define ipc where "ipc = (''ip_adapter_collector'', id_supply t)"
  define ipAdapterResult where "ipAdapterResult = addIPAdapters en
                \<lparr>ri_entities = entities (refImagesSlice st), ri_collector = ipc,
                 ri_model = model\<rparr>
                (snd (add_fresh_node ''collect'' ''ip_adapter_collector'' Map.empty t))"
  define rdc where "rdc = (''ip_adapter_collector'', id_supply (snd ipAdapterResult))"
  define fluxReduxResult where "fluxReduxResult = addFLUXReduxes en
                \<lparr>ri_entities = entities (refImagesSlice st), ri_collector = rdc,
                 ri_model = model\<rparr>
                (snd (add_fresh_node ''collect'' ''ip_adapter_collector'' Map.empty
                        (snd ipAdapterResult)))"
  define regionsResult where "regionsResult = (case manager of
                 None \<Rightarrow> []
               | Some m \<Rightarrow> fst (addRegions en
                   \<lparr>rg_manager = m, rg_regions = entities (regionalGuidance (canvasSlice st)),
                    rg_bbox = rect (bbox (canvasSlice st)), rg_model = model,
                    rg_posCond = posCond bn, rg_negCond = None,
                    rg_posCondCollect = posCondCollect bn, rg_negCondCollect = None,
                    rg_ipAdapterCollect = ipc, rg_fluxReduxCollect = rdc\<rparr>
                   (snd fluxReduxResult)))"
  define totalIPAdaptersAdded where "totalIPAdaptersAdded = fst ipAdapterResult
                 + foldl (\<lambda>acc r. acc + addedIPAdapters r) 0 regionsResult"
  define totalReduxesAdded where "totalReduxesAdded = fst fluxReduxResult
                 + foldl (\<lambda>acc r. acc + addedFLUXReduxes r) 0 regionsResult"
  define ca where "ca = collect_adapters en st manager model bn t"
  note parts = collect_adapters_parts[of en st manager model bn t,
      folded ipc_def, folded ipAdapterResult_def, folded rdc_def, folded fluxReduxResult_def,
      folded regionsResult_def, folded totalIPAdaptersAdded_def totalReduxesAdded_def,
      folded ca_def]
  define t6 where "t6 = connect_or_delete totalIPAdaptersAdded ipc (denoise bn) ''ip_adapter''
                          (snd (snd (snd (snd ca))))"
  have A: "add_adapters en st manager model bn t =
      connect_or_delete totalReduxesAdded rdc (denoise bn) ''redux_conditioning'' t6"
    unfolding add_adapters_calls ca_def[symmetric] parts t6_def ..
  have ip_pos: "collector_edge ipc (denoise bn) ''ip_adapter'' \<in> set (edges (ret_g r))"
    if a: "0 < totalIPAdaptersAdded"
      and mono: "\<forall>a s. id_supply s \<le> id_supply (snd (addIPAdapters en a s))"
      and post: "post_steps en (keeps_edge (collector_edge ipc (denoise bn) ''ip_adapter''))"
  proof -
    let ?e = "collector_edge ipc (denoise bn) ''ip_adapter''"
    have "id_supply t < id_supply (snd ipAdapterResult)"
      using mono[rule_format, of "snd (add_fresh_node ''collect'' ''ip_adapter_collector''
                                        Map.empty t)"
          "\<lparr>ri_entities = entities (refImagesSlice st), ri_collector = ipc,
            ri_model = model\<rparr>"]
      unfolding ipAdapterResult_def by simp
    then have ne: "ipc \<noteq> rdc" by (simp add: ipc_def rdc_def)
    have "?e \<in> set (edges (graph t6))"
      unfolding t6_def by (rule connect_or_delete_positive[OF a])
    moreover have "keeps_edge ?e t6 (add_adapters en st manager model bn t)"
      unfolding A using ne
      by (intro keeps_edge_connect_or_delete) (simp_all add: collector_edge_def rdc_def dn)
    ultimately show ?thesis by (intro edge_final[OF post]) (simp add: keeps_edge_def)
  qed
  have ip_zero: "ipc \<notin> dom (nodes (ret_g r))"
    if a: "totalIPAdaptersAdded \<le> 0" and post: "post_steps en (keeps_absent ipc)"
  proof -
    have "ipc \<notin> dom (nodes (graph t6))"
      unfolding t6_def by (rule connect_or_delete_zero[OF a])
    with keeps_absent_connect_or_delete[of ipc t6]
    have "ipc \<notin> dom (nodes (graph (add_adapters en st manager model bn t)))"
      unfolding A by (simp add: keeps_absent_def)
    then show ?thesis by (rule absent_final[OF post])
  qed
  have rd_pos: "collector_edge rdc (denoise bn) ''redux_conditioning''
                  \<in> set (edges (ret_g r))"
    if a: "0 < totalReduxesAdded"
      and post: "post_steps en
                   (keeps_edge (collector_edge rdc (denoise bn) ''redux_conditioning''))"
  proof -
    have "collector_edge rdc (denoise bn) ''redux_conditioning''
            \<in> set (edges (graph (add_adapters en st manager model bn t)))"
      unfolding A by (rule connect_or_delete_positive[OF a])
    then show ?thesis by (rule edge_final[OF post])
  qed
  have rd_zero: "rdc \<notin> dom (nodes (ret_g r))"
    if a: "totalReduxesAdded \<le> 0" and post: "post_steps en (keeps_absent rdc)"
  proof -
    have "rdc \<notin> dom (nodes (graph (add_adapters en st manager model bn t)))"
      unfolding A by (rule connect_or_delete_zero[OF a])
    then show ?thesis by (rule absent_final[OF post])
  qed
  have main: "buildFLUXGraph en st manager = Inr r \<and>
     (\<forall>m. manager = Some m \<longrightarrow>
        (0 < fst (addControlNets en
                  \<lparr>cn_manager = m, cn_entities = entities (controlLayers (canvasSlice st)),
                   cn_rect = rect (bbox (canvasSlice st)),
                   cn_collector = (''control_net_collector'', id_supply t0),
                   cn_model = model\<rparr>
                  (snd (add_fresh_node ''collect'' ''control_net_collector'' Map.empty t0)))
         \<and> after_control_steps en (keeps_edge (collector_edge
               (''control_net_collector'', id_supply t0) (denoise bn) ''control''))
         \<longrightarrow> collector_edge (''control_net_collector'', id_supply t0) (denoise bn) ''control''
               \<in> set (edges (ret_g r)))
      \<and> (fst (addControlNets en
                  \<lparr>cn_manager = m, cn_entities = entities (controlLayers (canvasSlice st)),
                   cn_rect = rect (bbox (canvasSlice st)),
                   cn_collector = (''control_net_collector'', id_supply t0),
                   cn_model = model\<rparr>
                  (snd (add_fresh_node ''collect'' ''control_net_collector'' Map.empty t0)))
            \<le> 0
         \<and> after_control_steps en (keeps_absent (''control_net_collector'', id_supply t0))
         \<longrightarrow> (''control_net_collector'', id_supply t0) \<notin> dom (nodes (ret_g r))))
   \<and> (0 < totalIPAdaptersAdded
              \<and> (\<forall>a s. id_supply s \<le> id_supply (snd (addIPAdapters en a s)))
              \<and> post_steps en (keeps_edge (collector_edge ipc (denoise bn) ''ip_adapter''))
              \<longrightarrow> collector_edge ipc (denoise bn) ''ip_adapter'' \<in> set (edges (ret_g r)))
   \<and> (totalIPAdaptersAdded \<le> 0 \<and> post_steps en (keeps_absent ipc)
              \<longrightarrow> ipc \<notin> dom (nodes (ret_g r)))
   \<and> (0 < totalReduxesAdded
              \<and> post_steps en (keeps_edge (collector_edge rdc (denoise bn) ''redux_conditioning''))
              \<longrightarrow> collector_edge rdc (denoise bn) ''redux_conditioning''
                    \<in> set (edges (ret_g r)))
   \<and> (totalReduxesAdded \<le> 0 \<and> post_steps en (keeps_absent rdc)
              \<longrightarrow> rdc \<notin> dom (nodes (ret_g r)))"
    using b control[OF _ refl refl] ip_pos ip_zero rd_pos rd_zero by blast
  from main show ?thesis
    unfolding Let_def model_def bn_def t0_def t_def ipc_def ipAdapterResult_def rdc_def
      fluxReduxResult_def regionsResult_def totalIPAdaptersAdded_def totalReduxesAdded_def
    by (rule exI)
qed

theorem collectors_connected_or_deleted_witness:
  "after_control_steps (sample_env Inpaint) (keeps_absent (''control_net_collector'', 6))
   \<and> (\<forall>a s. id_supply s \<le> id_supply (snd (addIPAdapters (sample_env Inpaint) a s)))
   \<and> post_steps (sample_env Inpaint)
        (keeps_edge (collector_edge (''ip_adapter_collector'', 7) (''flux_denoise'', 4)
                       ''ip_adapter''))
   \<and> post_steps (sample_env Inpaint) (keeps_absent (''ip_adapter_collector'', 8))
   \<and> (\<exists>r. buildFLUXGraph (sample_env Inpaint) (sample_state ''normal'')
             (Some (CanvasManager 0)) = Inr r
        \<and> (''control_net_collector'', 6) \<notin> dom (nodes (ret_g r))
        \<and> collector_edge (''ip_adapter_collector'', 7) (''flux_denoise'', 4) ''ip_adapter''
             \<in> set (edges (ret_g r))
        \<and> (''ip_adapter_collector'', 8) \<notin> dom (nodes (ret_g r)))"
proof -
  let ?en = "sample_env Inpaint"
  let ?st = "sample_state ''normal''"
  let ?m = "CanvasManager 0"
  have h1: "after_control_steps ?en (keeps_absent (''control_net_collector'', 6))"
    by (rule sample_env_keeps_absent) simp_all
  have h2: "\<forall>a s. id_supply s \<le> id_supply (snd (addIPAdapters ?en a s))"
    by (simp add: sample_env_def)
  have h3: "post_steps ?en
        (keeps_edge (collector_edge (''ip_adapter_collector'', 7) (''flux_denoise'', 4)
                       ''ip_adapter''))"
    by (rule after_control_post[OF sample_env_keeps_edge])
  have h4: "post_steps ?en (keeps_absent (''ip_adapter_collector'', 8))"
    by (rule after_control_post[OF sample_env_keeps_absent]) simp_all
  obtain ctx where ctx: "build_until_dispatch ?en ?st (Some ?m) = Inr ctx"
    and i: "id_supply (ctx_state ctx) = 6"
    by (simp add: sample_defs build_defs graph_defs Let_def)
  have n: "denoise (ctx_nodes ctx) = (''flux_denoise'', 4)"
    by (simp add: ctx_nodes_known[OF ctx])
  have en: "entities (controlLayers (canvasSlice ?st)) = []"
    "entities (refImagesSlice ?st) = [''ref'']"
    by (simp_all add: sample_state_def)
  have sel: "addControlNets ?en = (\<lambda>a s. (int (length (cn_entities a)), s))"
    "addIPAdapters ?en = (\<lambda>a s. (int (length (ri_entities a)), s))"
    "addFLUXReduxes ?en = (\<lambda>a s. (0, s))"
    "addRegions ?en = (\<lambda>a s. ([], s))"
    by (simp_all add: sample_env_def)
  have t: "id_supply (add_control_adapters ?en ?st (Some ?m) (rm_model (ctx_models ctx))
                        (ctx_nodes ctx) (ctx_state ctx)) = 7"
    using i
    by (simp add: add_control_adapters_def collect_control_nets_def add_fresh_node_def
        getPrefixedId_def sample_env_def Let_def case_prod_unfold)
  from collectors_connected_or_deleted[OF ctx, unfolded Let_def]
  obtain r where r: "buildFLUXGraph ?en ?st (Some ?m) = Inr r"
    and c: "(''control_net_collector'', 6) \<notin> dom (nodes (ret_g r))"
    and e: "collector_edge (''ip_adapter_collector'', 7) (''flux_denoise'', 4) ''ip_adapter''
             \<in> set (edges (ret_g r))"
    and d: "(''ip_adapter_collector'', 8) \<notin> dom (nodes (ret_g r))"
    using h1 h2 h3 h4 by (auto simp: sel en i t n)
  with h1 h2 h3 h4 show ?thesis by blast
qed

end
